theory Spec2Isabelle
  imports Main "HOL-Library.AList"
begin

section \<open>Python values\<close>

text \<open>
  The records of \<^verbatim>\<open>signal_status_publisher.py\<close> are Python dicts with string keys.
  Their values are what the database driver and the JSON decoder deliver: \<^verbatim>\<open>None\<close>,
  booleans, integers, \<^verbatim>\<open>Decimal\<close> numbers (finite ones: sign, coefficient, exponent),
  strings, naive \<^verbatim>\<open>datetime\<close> objects and nested dicts. Binary floating point is not
  part of the model. A dict is an association list in insertion order; \<open>map_of\<close> reads
  it and \<open>AList.update\<close> writes it (an existing key keeps its place, a new key goes
  to the end, as in Python).
\<close>

record datetime =
  dt_year :: nat
  dt_month :: nat
  dt_day :: nat
  dt_hour :: nat
  dt_minute :: nat
  dt_second :: nat
  dt_microsecond :: nat

datatype pyval =
    PNone
  | PBool bool
  | PInt int
  | PDecimal bool nat int
  | PStr string
  | PDatetime datetime
  | PDict "(string \<times> pyval) list"

type_synonym pydict = "(string \<times> pyval) list"

datatype error =
    KeyError string
  | TypeError
  | ValueError
  | AttributeError
  | External string

text \<open>
  The behaviour of the Python library that the model does not compute is a parameter:
  the text of a dict (\<^verbatim>\<open>str(d)\<close>), the parsing of a string by \<^verbatim>\<open>int(s)\<close>, and what
  \<^verbatim>\<open>arrow.get\<close> makes of a value that is not a \<^verbatim>\<open>datetime\<close>.
\<close>

record arrow =
  a_datetime :: datetime
  a_tzinfo :: string

record pylib =
  str_dict :: "pydict \<Rightarrow> string"
  int_of_str :: "string \<Rightarrow> error + int"
  arrow_get_other :: "pyval \<Rightarrow> error + arrow"

subsection \<open>Subscript and \<^verbatim>\<open>dict.get\<close>\<close>

definition dict_item :: "pydict \<Rightarrow> string \<Rightarrow> error + pyval" where
  "dict_item d k = (case map_of d k of None \<Rightarrow> Inl (KeyError k) | Some v \<Rightarrow> Inr v)"

definition dict_get :: "pydict \<Rightarrow> string \<Rightarrow> pyval" where
  "dict_get d k = (case map_of d k of None \<Rightarrow> PNone | Some v \<Rightarrow> v)"

subsection \<open>Truth value\<close>

fun py_truthy :: "pyval \<Rightarrow> bool" where
  "py_truthy PNone = False"
| "py_truthy (PBool b) = b"
| "py_truthy (PInt i) = (i \<noteq> 0)"
| "py_truthy (PDecimal s c e) = (c \<noteq> 0)"
| "py_truthy (PStr s) = (s \<noteq> [])"
| "py_truthy (PDatetime d) = True"
| "py_truthy (PDict d) = (d \<noteq> [])"

subsection \<open>Equality (\<^verbatim>\<open>==\<close>) and membership (\<^verbatim>\<open>in\<close>)\<close>

text \<open>
  Booleans, integers and decimals compare by numeric value (\<open>c * 10 ^ e\<close>); strings and
  datetimes compare with their own kind only; dicts compare key by key, whatever the
  order of insertion. Values of different kinds are unequal.
\<close>

fun num_of :: "pyval \<Rightarrow> (int \<times> int) option" where
  "num_of (PBool b) = Some (if b then 1 else 0, 0)"
| "num_of (PInt i) = Some (i, 0)"
| "num_of (PDecimal s c e) = Some (if s then - int c else int c, e)"
| "num_of v = None"

definition num_eq :: "int \<times> int \<Rightarrow> int \<times> int \<Rightarrow> bool" where
  "num_eq x y =
     (let m = min (snd x) (snd y)
      in fst x * 10 ^ nat (snd x - m) = fst y * 10 ^ nat (snd y - m))"

function py_eq :: "pyval \<Rightarrow> pyval \<Rightarrow> bool" where
  "py_eq x y =
     (case (x, y) of
        (PNone, PNone) \<Rightarrow> True
      | (PStr s, PStr t) \<Rightarrow> s = t
      | (PDatetime d, PDatetime d') \<Rightarrow> d = d'
      | (PDict a, PDict b) \<Rightarrow>
          set (map fst a) = set (map fst b) \<and>
          (\<forall>k \<in> set (map fst a).
             case (map_of a k, map_of b k) of
               (Some v, Some w) \<Rightarrow> py_eq v w
             | _ \<Rightarrow> False)
      | _ \<Rightarrow>
          (case (num_of x, num_of y) of
             (Some m, Some n) \<Rightarrow> num_eq m n
           | _ \<Rightarrow> False))"
  by pat_completeness auto
termination
proof -
  have less: "size v < Suc (size_list (size_prod (\<lambda>_. 0) size) d)"
    if "Some v = map_of d k" for d :: pydict and k v
    using that by (induction d) (auto split: if_splits)
  show ?thesis
    by (relation "measure (\<lambda>(x, y). size x)") (auto dest: less)
qed

declare py_eq.simps [simp del]

definition py_in :: "pyval \<Rightarrow> pyval list \<Rightarrow> bool" where
  "py_in x xs = (\<exists>y \<in> set xs. py_eq x y)"

subsection \<open>\<^verbatim>\<open>str\<close>\<close>

definition digit_char :: "nat \<Rightarrow> char" where
  "digit_char d = ''0123456789'' ! d"

fun str_nat :: "nat \<Rightarrow> string" where
  "str_nat n = (if n < 10 then [digit_char n] else str_nat (n div 10) @ [digit_char (n mod 10)])"

declare str_nat.simps [simp del]

definition str_int :: "int \<Rightarrow> string" where
  "str_int i = (if i < 0 then CHR ''-'' # str_nat (nat (- i)) else str_nat (nat i))"

definition zfill :: "nat \<Rightarrow> string \<Rightarrow> string" where
  "zfill w s = replicate (w - length s) (CHR ''0'') @ s"

text \<open>\<^verbatim>\<open>Decimal.__str__\<close>: plain notation while the exponent is at most 0 and the number
  is not too small, scientific notation otherwise.\<close>

definition str_decimal :: "bool \<Rightarrow> nat \<Rightarrow> int \<Rightarrow> string" where
  "str_decimal s c e =
     (let digits = str_nat c;
          n = int (length digits);
          leftdigits = e + n;
          dotplace = (if e \<le> 0 \<and> leftdigits > - 6 then leftdigits else 1);
          intpart = (if dotplace \<le> 0 then ''0''
                     else if dotplace \<ge> n then digits @ replicate (nat (dotplace - n)) (CHR ''0'')
                     else take (nat dotplace) digits);
          fracpart = (if dotplace \<le> 0 then ''.'' @ replicate (nat (- dotplace)) (CHR ''0'') @ digits
                      else if dotplace \<ge> n then ''''
                      else ''.'' @ drop (nat dotplace) digits);
          ex = (if leftdigits = dotplace then ''''
                else ''E'' @ (if leftdigits - dotplace < 0 then ''-'' else ''+'')
                       @ str_nat (nat \<bar>leftdigits - dotplace\<bar>))
      in (if s then ''-'' else '''') @ intpart @ fracpart @ ex)"

text \<open>\<^verbatim>\<open>datetime.__str__\<close> is \<^verbatim>\<open>isoformat(sep=' ')\<close>.\<close>

definition str_datetime :: "datetime \<Rightarrow> string" where
  "str_datetime d =
     zfill 4 (str_nat (dt_year d)) @ ''-'' @ zfill 2 (str_nat (dt_month d)) @ ''-''
       @ zfill 2 (str_nat (dt_day d)) @ '' '' @ zfill 2 (str_nat (dt_hour d)) @ '':''
       @ zfill 2 (str_nat (dt_minute d)) @ '':'' @ zfill 2 (str_nat (dt_second d))
       @ (if dt_microsecond d = 0 then '''' else ''.'' @ zfill 6 (str_nat (dt_microsecond d)))"

fun py_str :: "pylib \<Rightarrow> pyval \<Rightarrow> string" where
  "py_str L PNone = ''None''"
| "py_str L (PBool b) = (if b then ''True'' else ''False'')"
| "py_str L (PInt i) = str_int i"
| "py_str L (PDecimal s c e) = str_decimal s c e"
| "py_str L (PStr s) = s"
| "py_str L (PDatetime d) = str_datetime d"
| "py_str L (PDict d) = str_dict L d"

subsection \<open>\<^verbatim>\<open>int\<close>\<close>

text \<open>\<^verbatim>\<open>Decimal.__int__\<close> truncates towards zero.\<close>

definition int_decimal :: "bool \<Rightarrow> nat \<Rightarrow> int \<Rightarrow> int" where
  "int_decimal s c e =
     (if s then - 1 else 1)
       * (if e \<ge> 0 then int c * 10 ^ nat e else int (c div 10 ^ nat (- e)))"

fun py_int :: "pylib \<Rightarrow> pyval \<Rightarrow> error + int" where
  "py_int L PNone = Inl TypeError"
| "py_int L (PBool b) = Inr (if b then 1 else 0)"
| "py_int L (PInt i) = Inr i"
| "py_int L (PDecimal s c e) = Inr (int_decimal s c e)"
| "py_int L (PStr s) = int_of_str L s"
| "py_int L (PDatetime d) = Inl TypeError"
| "py_int L (PDict d) = Inl TypeError"

subsection \<open>The \<^verbatim>\<open>arrow\<close> calls\<close>

text \<open>
  \<^verbatim>\<open>arrow.get(dt)\<close> on a naive datetime keeps its fields and attaches UTC;
  \<^verbatim>\<open>replace(tzinfo=tz)\<close> swaps the zone and keeps the fields;
  \<^verbatim>\<open>format("YYYY-MM-DDTHH:mm:ss")\<close> prints the fields, zero-padded, the \<^verbatim>\<open>T\<close> as it is.
\<close>

definition arrow_get :: "pylib \<Rightarrow> pyval \<Rightarrow> error + arrow" where
  "arrow_get L v =
     (case v of
        PDatetime d \<Rightarrow> Inr \<lparr>a_datetime = d, a_tzinfo = ''UTC''\<rparr>
      | _ \<Rightarrow> arrow_get_other L v)"

definition arrow_replace_tzinfo :: "string \<Rightarrow> arrow \<Rightarrow> arrow" where
  "arrow_replace_tzinfo tz a = a\<lparr>a_tzinfo := tz\<rparr>"

definition arrow_format :: "arrow \<Rightarrow> string" where
  "arrow_format a =
     (let d = a_datetime a
      in zfill 4 (str_nat (dt_year d)) @ ''-'' @ zfill 2 (str_nat (dt_month d)) @ ''-''
           @ zfill 2 (str_nat (dt_day d)) @ ''T'' @ zfill 2 (str_nat (dt_hour d)) @ '':''
           @ zfill 2 (str_nat (dt_minute d)) @ '':'' @ zfill 2 (str_nat (dt_second d)))"

section \<open>The passes over the record collection\<close>

text \<open>
  Every pass is a \<^verbatim>\<open>for\<close> loop that rewrites the records of the list in place and
  returns nothing. In the model a pass returns the rewritten list, or the exception
  that stopped the loop. The half-rewritten list that an exception leaves behind is
  not part of the result: \<^verbatim>\<open>main\<close> has no handler, so nothing reads it.
\<close>

fun for_each :: "('a \<Rightarrow> error + 'a) \<Rightarrow> 'a list \<Rightarrow> error + 'a list" where
  "for_each f [] = Inr []"
| "for_each f (x # xs) =
     (case f x of
        Inl e \<Rightarrow> Inl e
      | Inr y \<Rightarrow> (case for_each f xs of Inl e \<Rightarrow> Inl e | Inr ys \<Rightarrow> Inr (y # ys)))"

subsection \<open>\<^verbatim>\<open>stringify_signal_ids\<close>\<close>

definition stringify_signal_id :: "pylib \<Rightarrow> string \<Rightarrow> pydict \<Rightarrow> error + pydict" where
  "stringify_signal_id L key sig =
     (case dict_item sig key of
        Inl e \<Rightarrow> Inl e
      | Inr v \<Rightarrow> Inr (AList.update key (PStr (py_str L v)) sig))"

definition stringify_signal_ids :: "pylib \<Rightarrow> string \<Rightarrow> pydict list \<Rightarrow> error + pydict list" where
  "stringify_signal_ids L key kits_sig_status = for_each (stringify_signal_id L key) kits_sig_status"

subsection \<open>\<^verbatim>\<open>identify_deletes\<close>\<close>

text \<open>The list comprehension \<^verbatim>\<open>[s[key] for s in xs]\<close>.\<close>

fun subscript_all :: "string \<Rightarrow> pydict list \<Rightarrow> error + pyval list" where
  "subscript_all key [] = Inr []"
| "subscript_all key (s # xs) =
     (case dict_item s key of
        Inl e \<Rightarrow> Inl e
      | Inr v \<Rightarrow> (case subscript_all key xs of Inl e \<Rightarrow> Inl e | Inr vs \<Rightarrow> Inr (v # vs)))"

definition delete_marker :: "pyval \<Rightarrow> pydict" where
  "delete_marker signal_id = [(''signal_id'', signal_id), ('':deleted'', PBool True)]"

fun collect_deletes :: "pyval list \<Rightarrow> pyval list \<Rightarrow> pydict list" where
  "collect_deletes kits_ids [] = []"
| "collect_deletes kits_ids (signal_id # socrata_ids) =
     (if \<not> py_in signal_id kits_ids
      then delete_marker signal_id # collect_deletes kits_ids socrata_ids
      else collect_deletes kits_ids socrata_ids)"

definition identify_deletes :: "pydict list \<Rightarrow> pydict list \<Rightarrow> error + pydict list" where
  "identify_deletes kits_sig_status socrata_sig_status =
     (case subscript_all ''signal_id'' kits_sig_status of
        Inl e \<Rightarrow> Inl e
      | Inr kits_ids \<Rightarrow>
          (case subscript_all ''signal_id'' socrata_sig_status of
             Inl e \<Rightarrow> Inl e
           | Inr socrata_ids \<Rightarrow> Inr (collect_deletes kits_ids socrata_ids)))"

subsection \<open>\<^verbatim>\<open>merge_signal_asset_data\<close>\<close>

definition asset_fields :: "string list" where
  "asset_fields = [''location'', ''location_name'', ''primary_st'', ''cross_st'']"

text \<open>The comprehension over the asset records: it reads the \<^verbatim>\<open>signal_id\<close> of every asset
  record and of the signal, once per asset record.\<close>

fun matched_signals :: "pydict list \<Rightarrow> pydict \<Rightarrow> error + pydict list" where
  "matched_signals [] kits_signal = Inr []"
| "matched_signals (a # signal_asset_data) kits_signal =
     (case dict_item a ''signal_id'' of
        Inl e \<Rightarrow> Inl e
      | Inr x \<Rightarrow>
          (case dict_item kits_signal ''signal_id'' of
             Inl e \<Rightarrow> Inl e
           | Inr y \<Rightarrow>
               (case matched_signals signal_asset_data kits_signal of
                  Inl e \<Rightarrow> Inl e
                | Inr ms \<Rightarrow> Inr (if py_eq x y then a # ms else ms))))"

text \<open>\<^verbatim>\<open>d.update(other)\<close> stores the items of \<open>other\<close> in their order.\<close>

definition dict_update :: "pydict \<Rightarrow> pydict \<Rightarrow> pydict" where
  "dict_update d other = fold (\<lambda>(k, v) acc. AList.update k v acc) other d"

definition merge_signal :: "pydict list \<Rightarrow> pydict \<Rightarrow> error + pydict" where
  "merge_signal signal_asset_data kits_signal =
     (case matched_signals signal_asset_data kits_signal of
        Inl e \<Rightarrow> Inl e
      | Inr [] \<Rightarrow> Inr kits_signal
      | Inr (matched_signal # _) \<Rightarrow>
          Inr (dict_update kits_signal
                 (map (\<lambda>key. (key, dict_get matched_signal key)) asset_fields)))"

definition merge_signal_asset_data :: "pydict list \<Rightarrow> pydict list \<Rightarrow> error + pydict list" where
  "merge_signal_asset_data kits_sig_status signal_asset_data =
     for_each (merge_signal signal_asset_data) kits_sig_status"

subsection \<open>\<^verbatim>\<open>localize_operation_state_datetime\<close>\<close>

definition localize_signal :: "pylib \<Rightarrow> string \<Rightarrow> string \<Rightarrow> pydict \<Rightarrow> error + pydict" where
  "localize_signal L key tz signal =
     (case dict_item signal key of
        Inl e \<Rightarrow> Inl e
      | Inr v \<Rightarrow>
          (case arrow_get L v of
             Inl e \<Rightarrow> Inl e
           | Inr dt \<Rightarrow>
               Inr (AList.update key (PStr (arrow_format (arrow_replace_tzinfo tz dt))) signal)))"

definition localize_operation_state_datetime ::
  "pylib \<Rightarrow> string \<Rightarrow> string \<Rightarrow> pydict list \<Rightarrow> error + pydict list" where
  "localize_operation_state_datetime L key tz kits_sig_status =
     for_each (localize_signal L key tz) kits_sig_status"

subsection \<open>\<^verbatim>\<open>set_processed_datetime\<close>\<close>

text \<open>\<^verbatim>\<open>arrow.now(tz)\<close> is read once per record: \<open>clock n\<close> is the \<open>n\<close>-th reading of the
  wall clock of the zone.\<close>

fun set_processed_datetime :: "(nat \<Rightarrow> datetime) \<Rightarrow> string \<Rightarrow> nat \<Rightarrow> pydict list \<Rightarrow> pydict list" where
  "set_processed_datetime clock tz n [] = []"
| "set_processed_datetime clock tz n (signal # rest) =
     AList.update ''processed_datetime''
       (PStr (arrow_format \<lparr>a_datetime = clock n, a_tzinfo = tz\<rparr>)) signal
     # set_processed_datetime clock tz (Suc n) rest"

subsection \<open>\<^verbatim>\<open>convert_decimals\<close>\<close>

fun convert_keys :: "pylib \<Rightarrow> string list \<Rightarrow> pydict \<Rightarrow> error + pydict" where
  "convert_keys L [] signal = Inr signal"
| "convert_keys L (key # keys) signal =
     (case dict_item signal key of
        Inl e \<Rightarrow> Inl e
      | Inr v \<Rightarrow>
          (case py_int L v of
             Inl e \<Rightarrow> Inl e
           | Inr i \<Rightarrow> convert_keys L keys (AList.update key (PInt i) signal)))"

definition convert_decimals :: "pylib \<Rightarrow> string list \<Rightarrow> pydict list \<Rightarrow> error + pydict list" where
  "convert_decimals L keys kits_sig_status = for_each (convert_keys L keys) kits_sig_status"

definition decimal_keys :: "string list" where
  "decimal_keys = [''operation_state'', ''plan_id'']"

subsection \<open>\<^verbatim>\<open>format_locations\<close>\<close>

text \<open>\<^verbatim>\<open>x.get(k)\<close>: only a dict has the method.\<close>

definition method_get :: "pyval \<Rightarrow> string \<Rightarrow> error + pyval" where
  "method_get x k = (case x of PDict d \<Rightarrow> Inr (dict_get d k) | _ \<Rightarrow> Inl AttributeError)"

definition format_location :: "pylib \<Rightarrow> pydict \<Rightarrow> error + pydict" where
  "format_location L signal =
     (let loc = (case map_of signal ''location'' of None \<Rightarrow> PDict [] | Some v \<Rightarrow> v)
      in case method_get loc ''latitude'' of
           Inl e \<Rightarrow> Inl e
         | Inr lat \<Rightarrow>
             (case method_get loc ''longitude'' of
                Inl e \<Rightarrow> Inl e
              | Inr lon \<Rightarrow>
                  Inr (if py_truthy lat \<and> py_truthy lon
                       then AList.update ''location''
                              (PStr (''('' @ py_str L lon @ '', '' @ py_str L lat @ '')'')) signal
                       else signal)))"

definition format_locations :: "pylib \<Rightarrow> pydict list \<Rightarrow> error + pydict list" where
  "format_locations L kits_sig_status = for_each (format_location L) kits_sig_status"

section \<open>The run\<close>

text \<open>
  The world outside the process is a record: what the database query returns (rows as
  dicts, or the exception of the driver), what an HTTP GET returns, the wall clock, and
  what the upsert call to the published dataset returns. A run yields the sequence of
  its calls to the outside, and the exception that ended it, if any. Building the
  \<^verbatim>\<open>sodapy\<close> client sends nothing and is not a step of the model; the connection
  parameters of the database are part of the outside world.
\<close>

record response =
  status_code :: nat
  json_body :: "error + pydict list"

record env =
  kits_db :: "error + pydict list"
  http_get :: "string \<Rightarrow> pydict \<Rightarrow> error + response"
  clock :: "nat \<Rightarrow> datetime"
  socrata_upsert :: "string \<Rightarrow> pydict list \<Rightarrow> error option"

datatype io_event =
    DbQuery
  | HttpGet string pydict
  | LogInfo string
  | Upsert string "pydict list"

type_synonym 'a io = "io_event list \<times> (error + 'a)"

text \<open>Statement after statement: an exception ends the sequence, nothing catches it.\<close>

definition io_bind :: "'a io \<Rightarrow> ('a \<Rightarrow> 'b io) \<Rightarrow> 'b io" where
  "io_bind m f =
     (case m of
        (tr, Inl e) \<Rightarrow> (tr, Inl e)
      | (tr, Inr x) \<Rightarrow> (case f x of (tr', r) \<Rightarrow> (tr @ tr', r)))"

definition io_pure :: "error + 'a \<Rightarrow> 'a io" where
  "io_pure r = ([], r)"

definition SIGNAL_STATUS_RESOURCE_ID :: string where
  "SIGNAL_STATUS_RESOURCE_ID = ''5zpr-dehc''"

definition SIGNALS_RESOURCE_ID :: string where
  "SIGNALS_RESOURCE_ID = ''p53x-x73x''"

definition get_kits_signal_status :: "env \<Rightarrow> pydict list io" where
  "get_kits_signal_status E = ([DbQuery], kits_db E)"

definition get_socrata_data :: "env \<Rightarrow> string \<Rightarrow> pydict \<Rightarrow> pydict list io" where
  "get_socrata_data E resource_id params =
     (let endpoint = ''https://data.austintexas.gov/resource/'' @ resource_id @ ''.json''
      in ([HttpGet endpoint params],
          (case http_get E endpoint params of
             Inl e \<Rightarrow> Inl e
           | Inr res \<Rightarrow>
               if 400 \<le> status_code res \<and> status_code res < 600
               then Inl (External ''HTTPError'')
               else json_body res)))"

definition logger_info :: "string \<Rightarrow> unit io" where
  "logger_info msg = ([LogInfo msg], Inr ())"

definition client_upsert :: "env \<Rightarrow> string \<Rightarrow> pydict list \<Rightarrow> unit io" where
  "client_upsert E resource_id payload =
     ([Upsert resource_id payload],
      (case socrata_upsert E resource_id payload of None \<Rightarrow> Inr () | Some e \<Rightarrow> Inl e))"

text \<open>\<^verbatim>\<open>sep.join(xs)\<close> takes strings only.\<close>

fun str_join :: "string \<Rightarrow> pyval list \<Rightarrow> error + string" where
  "str_join sep [] = Inr []"
| "str_join sep [PStr s] = Inr s"
| "str_join sep (PStr s # xs) =
     (case str_join sep xs of Inl e \<Rightarrow> Inl e | Inr t \<Rightarrow> Inr (s @ sep @ t))"
| "str_join sep (_ # xs) = Inl TypeError"

definition main :: "pylib \<Rightarrow> env \<Rightarrow> unit io" where
  "main L E =
     io_bind (get_kits_signal_status E) (\<lambda>kits0.
     io_bind (logger_info (str_nat (length kits0) @ '' records to process.'')) (\<lambda>_.
     io_bind (io_pure (stringify_signal_ids L ''signal_id'' kits0)) (\<lambda>kits1.
     io_bind (get_socrata_data E SIGNAL_STATUS_RESOURCE_ID [(''$limit'', PInt 99999)])
       (\<lambda>socrata_sig_status.
     io_bind (io_pure (identify_deletes kits1 socrata_sig_status)) (\<lambda>delete_signals.
     io_bind (logger_info (str_nat (length delete_signals) @ '' to be deleted.'')) (\<lambda>_.
     io_bind (io_pure (subscript_all ''signal_id'' kits1)) (\<lambda>fetch_signal_ids.
     io_bind (io_pure (str_join '','' fetch_signal_ids)) (\<lambda>joined.
     io_bind (get_socrata_data E SIGNALS_RESOURCE_ID
                [(''$where'', PStr (''signal_id in ('' @ joined @ '')'')),
                 (''$limit'', PInt 99999)])
       (\<lambda>signal_asset_data.
     io_bind (io_pure (merge_signal_asset_data kits1 signal_asset_data)) (\<lambda>kits2.
     io_bind (io_pure (localize_operation_state_datetime L ''operation_state_datetime''
                         ''US/Central'' kits2)) (\<lambda>kits3.
     io_bind (io_pure (Inr (set_processed_datetime (clock E) ''US/Central'' 0 kits3)))
       (\<lambda>kits4.
     io_bind (io_pure (convert_decimals L decimal_keys kits4)) (\<lambda>kits5.
     io_bind (io_pure (format_locations L kits5)) (\<lambda>kits6.
     client_upsert E SIGNAL_STATUS_RESOURCE_ID (kits6 @ delete_signals)))))))))))))))"

section \<open>Vocabulary of the properties\<close>

text \<open>The \<^verbatim>\<open>signal_id\<close> values of a collection, in its order.\<close>

definition signal_ids :: "pydict list \<Rightarrow> pyval list" where
  "signal_ids rs = map (\<lambda>r. dict_get r ''signal_id'') rs"

text \<open>The text \<^verbatim>\<open>f"({lon}, {lat})"\<close> that \<^verbatim>\<open>format_locations\<close> stores.\<close>

definition location_text :: "pylib \<Rightarrow> pyval \<Rightarrow> pyval \<Rightarrow> pyval" where
  "location_text L lon lat = PStr (''('' @ py_str L lon @ '', '' @ py_str L lat @ '')'')"

text \<open>The asset records whose \<^verbatim>\<open>signal_id\<close> equals that of a source record.\<close>

definition matches :: "pydict list \<Rightarrow> pydict \<Rightarrow> pydict list" where
  "matches signal_asset_data r =
     filter (\<lambda>a. py_eq (dict_get a ''signal_id'') (dict_get r ''signal_id'')) signal_asset_data"

text \<open>The ranges of the fields of a \<^verbatim>\<open>datetime\<close> object.\<close>

definition valid_datetime :: "datetime \<Rightarrow> bool" where
  "valid_datetime d \<longleftrightarrow>
     1 \<le> dt_year d \<and> dt_year d \<le> 9999 \<and> 1 \<le> dt_month d \<and> dt_month d \<le> 12 \<and>
     1 \<le> dt_day d \<and> dt_day d \<le> 31 \<and> dt_hour d < 24 \<and> dt_minute d < 60 \<and>
     dt_second d < 60 \<and> dt_microsecond d < 1000000"

text \<open>
  The text \<^verbatim>\<open>YYYY-MM-DDTHH:mm:ss\<close>: its shape, the numbers it spells, and the text of a
  datetime in it. \<open>fixed_digits w n\<close> is the numeral of \<open>n\<close> in exactly \<open>w\<close> digits.
\<close>

fun fixed_digits :: "nat \<Rightarrow> nat \<Rightarrow> string" where
  "fixed_digits 0 n = []"
| "fixed_digits (Suc w) n = fixed_digits w (n div 10) @ [digit_char (n mod 10)]"

definition digit_value :: "char \<Rightarrow> nat" where
  "digit_value c = of_char c - 48"

definition nat_of_digits :: "string \<Rightarrow> nat" where
  "nat_of_digits s = foldl (\<lambda>acc c. 10 * acc + digit_value c) 0 s"

definition slice :: "nat \<Rightarrow> nat \<Rightarrow> string \<Rightarrow> string" where
  "slice i n s = take n (drop i s)"

definition iso_shape :: "string \<Rightarrow> bool" where
  "iso_shape s \<longleftrightarrow>
     length s = 19 \<and> s ! 4 = CHR ''-'' \<and> s ! 7 = CHR ''-'' \<and> s ! 10 = CHR ''T'' \<and>
     s ! 13 = CHR '':'' \<and> s ! 16 = CHR '':'' \<and>
     list_all (\<lambda>c. c \<in> set ''0123456789'')
       (slice 0 4 s @ slice 5 2 s @ slice 8 2 s @ slice 11 2 s @ slice 14 2 s @ slice 17 2 s)"

definition iso_fields :: "string \<Rightarrow> nat \<times> nat \<times> nat \<times> nat \<times> nat \<times> nat" where
  "iso_fields s =
     (nat_of_digits (slice 0 4 s), nat_of_digits (slice 5 2 s), nat_of_digits (slice 8 2 s),
      nat_of_digits (slice 11 2 s), nat_of_digits (slice 14 2 s), nat_of_digits (slice 17 2 s))"

definition iso_seconds :: "datetime \<Rightarrow> string" where
  "iso_seconds d =
     fixed_digits 4 (dt_year d) @ ''-'' @ fixed_digits 2 (dt_month d) @ ''-''
       @ fixed_digits 2 (dt_day d) @ ''T'' @ fixed_digits 2 (dt_hour d) @ '':''
       @ fixed_digits 2 (dt_minute d) @ '':'' @ fixed_digits 2 (dt_second d)"

text \<open>A pass keeps the number and the order of the records and every field outside \<open>K\<close>.\<close>

definition frame :: "string set \<Rightarrow> pydict list \<Rightarrow> pydict list \<Rightarrow> bool" where
  "frame K rs rs' \<longleftrightarrow>
     length rs' = length rs \<and>
     (\<forall>i < length rs. \<forall>k. k \<notin> K \<longrightarrow> map_of (rs' ! i) k = map_of (rs ! i) k)"

text \<open>The write calls of a run, and a run that ends in an exception without a write call.\<close>

fun upserts :: "io_event list \<Rightarrow> (string \<times> pydict list) list" where
  "upserts [] = []"
| "upserts (Upsert resource_id payload # evs) = (resource_id, payload) # upserts evs"
| "upserts (_ # evs) = upserts evs"

definition aborts :: "unit io \<Rightarrow> error \<Rightarrow> bool" where
  "aborts run e \<longleftrightarrow> snd run = Inl e \<and> upserts (fst run) = []"

text \<open>The parameters of the two reads of \<^verbatim>\<open>main\<close>, and what a read returns.\<close>

definition status_params :: pydict where
  "status_params = [(''$limit'', PInt 99999)]"

definition asset_params :: "string \<Rightarrow> pydict" where
  "asset_params joined =
     [(''$where'', PStr (''signal_id in ('' @ joined @ '')'')), (''$limit'', PInt 99999)]"

definition socrata_result :: "env \<Rightarrow> string \<Rightarrow> pydict \<Rightarrow> error + pydict list" where
  "socrata_result E resource_id params = snd (get_socrata_data E resource_id params)"

text \<open>
  An instance of the library parameters for the examples below. No example reaches one
  of its three functions: no dict is printed, no string is converted to an integer and
  \<^verbatim>\<open>arrow.get\<close> only sees datetimes.
\<close>

definition example_lib :: pylib where
  "example_lib =
     \<lparr>str_dict = (\<lambda>d. ''{...}''),
      int_of_str = (\<lambda>s. Inl ValueError),
      arrow_get_other = (\<lambda>v. Inl TypeError)\<rparr>"

definition source_101_102 :: "pydict list" where
  "source_101_102 = [[(''signal_id'', PStr ''101'')], [(''signal_id'', PStr ''102'')]]"

definition published_101_103 :: "pydict list" where
  "published_101_103 = [[(''signal_id'', PStr ''101'')], [(''signal_id'', PStr ''103'')]]"

definition location_examples :: "pydict list" where
  "location_examples =
     [[(''location'', PDict [(''latitude'', PDecimal False 301 (- 1)),
                             (''longitude'', PDecimal True 977 (- 1))])],
      [(''location'', PDict [])],
      [(''signal_id'', PStr ''7'')]]"

definition equator_example :: "pydict list" where
  "equator_example =
     [[(''location'', PDict [(''latitude'', PInt 0),
                             (''longitude'', PDecimal True 977 (- 1))])]]"

definition id_example :: "pydict list" where
  "id_example = [[(''signal_id'', PInt 101)]]"

definition decimal_example :: "pydict list" where
  "decimal_example =
     [[(''operation_state'', PDecimal False 20 (- 1)), (''plan_id'', PInt 5),
       (''signal_id'', PStr ''101'')]]"

definition converted_example :: "pydict list" where
  "converted_example =
     [[(''operation_state'', PInt 2), (''plan_id'', PInt 5), (''signal_id'', PStr ''101'')]]"

definition coordinates_example :: "pydict list" where
  "coordinates_example =
     [[(''location'', PDict [(''latitude'', PDecimal False 301 (- 1)),
                             (''longitude'', PDecimal True 977 (- 1))])]]"

definition formatted_example :: "pydict list" where
  "formatted_example = [[(''location'', PStr ''(-97.7, 30.1)'')]]"

definition example_event_time :: datetime where
  "example_event_time = \<lparr>dt_year = 2024, dt_month = 1, dt_day = 15, dt_hour = 8,
                          dt_minute = 30, dt_second = 0, dt_microsecond = 0\<rparr>"

definition no_location_assets :: "pydict list" where
  "no_location_assets =
     [[(''signal_id'', PStr ''101''), (''location_name'', PStr ''Main & 5th'')],
      [(''signal_id'', PStr ''101''), (''location_name'', PStr ''Elm & 1st'')]]"

definition merged_example :: "pydict list" where
  "merged_example =
     [[(''signal_id'', PStr ''101''), (''location'', PNone),
       (''location_name'', PStr ''Main & 5th''), (''primary_st'', PNone),
       (''cross_st'', PNone)],
      [(''signal_id'', PStr ''102'')]]"

text \<open>A run: two rows of the database, two published records, one asset record.\<close>

definition example_rows :: "pydict list" where
  "example_rows =
     [[(''operation_state_datetime'',
          PDatetime \<lparr>dt_year = 2024, dt_month = 1, dt_day = 15, dt_hour = 8, dt_minute = 30,
                     dt_second = 0, dt_microsecond = 0\<rparr>),
       (''operation_state'', PDecimal False 20 (- 1)),
       (''plan_id'', PInt 7),
       (''signal_id'', PInt 101)],
      [(''operation_state_datetime'',
          PDatetime \<lparr>dt_year = 2024, dt_month = 1, dt_day = 15, dt_hour = 9, dt_minute = 5,
                     dt_second = 7, dt_microsecond = 0\<rparr>),
       (''operation_state'', PInt 1),
       (''plan_id'', PDecimal False 3 0),
       (''signal_id'', PInt 102)]]"

definition example_assets :: "pydict list" where
  "example_assets =
     [[(''signal_id'', PStr ''101''),
       (''location_name'', PStr ''Main & 5th''),
       (''location'', PDict [(''latitude'', PStr ''30.1''), (''longitude'', PStr ''-97.7'')]),
       (''primary_st'', PStr ''Main''),
       (''cross_st'', PStr ''5th'')]]"

definition example_now :: datetime where
  "example_now = \<lparr>dt_year = 2024, dt_month = 1, dt_day = 15, dt_hour = 8, dt_minute = 35,
                   dt_second = 0, dt_microsecond = 0\<rparr>"

definition example_env :: env where
  "example_env =
     \<lparr>kits_db = Inr example_rows,
      http_get = (\<lambda>url params.
         if url = ''https://data.austintexas.gov/resource/5zpr-dehc.json''
         then Inr \<lparr>status_code = 200, json_body = Inr published_101_103\<rparr>
         else Inr \<lparr>status_code = 200, json_body = Inr example_assets\<rparr>),
      clock = (\<lambda>n. example_now),
      socrata_upsert = (\<lambda>resource_id payload. None)\<rparr>"

text \<open>The collection of that run after each pass.\<close>

definition ex_kits1 :: "pydict list" where
  "ex_kits1 =
     [[(''operation_state_datetime'',
          PDatetime \<lparr>dt_year = 2024, dt_month = 1, dt_day = 15, dt_hour = 8, dt_minute = 30,
                     dt_second = 0, dt_microsecond = 0\<rparr>),
       (''operation_state'', PDecimal False 20 (- 1)), (''plan_id'', PInt 7),
       (''signal_id'', PStr ''101'')],
      [(''operation_state_datetime'',
          PDatetime \<lparr>dt_year = 2024, dt_month = 1, dt_day = 15, dt_hour = 9, dt_minute = 5,
                     dt_second = 7, dt_microsecond = 0\<rparr>),
       (''operation_state'', PInt 1), (''plan_id'', PDecimal False 3 0),
       (''signal_id'', PStr ''102'')]]"

definition ex_kits2 :: "pydict list" where
  "ex_kits2 =
     [[(''operation_state_datetime'',
          PDatetime \<lparr>dt_year = 2024, dt_month = 1, dt_day = 15, dt_hour = 8, dt_minute = 30,
                     dt_second = 0, dt_microsecond = 0\<rparr>),
       (''operation_state'', PDecimal False 20 (- 1)), (''plan_id'', PInt 7),
       (''signal_id'', PStr ''101''),
       (''location'', PDict [(''latitude'', PStr ''30.1''), (''longitude'', PStr ''-97.7'')]),
       (''location_name'', PStr ''Main & 5th''),
       (''primary_st'', PStr ''Main''), (''cross_st'', PStr ''5th'')],
      [(''operation_state_datetime'',
          PDatetime \<lparr>dt_year = 2024, dt_month = 1, dt_day = 15, dt_hour = 9, dt_minute = 5,
                     dt_second = 7, dt_microsecond = 0\<rparr>),
       (''operation_state'', PInt 1), (''plan_id'', PDecimal False 3 0),
       (''signal_id'', PStr ''102'')]]"

definition ex_kits3 :: "pydict list" where
  "ex_kits3 =
     [[(''operation_state_datetime'', PStr ''2024-01-15T08:30:00''),
       (''operation_state'', PDecimal False 20 (- 1)), (''plan_id'', PInt 7),
       (''signal_id'', PStr ''101''),
       (''location'', PDict [(''latitude'', PStr ''30.1''), (''longitude'', PStr ''-97.7'')]),
       (''location_name'', PStr ''Main & 5th''),
       (''primary_st'', PStr ''Main''), (''cross_st'', PStr ''5th'')],
      [(''operation_state_datetime'', PStr ''2024-01-15T09:05:07''),
       (''operation_state'', PInt 1), (''plan_id'', PDecimal False 3 0),
       (''signal_id'', PStr ''102'')]]"

definition ex_kits4 :: "pydict list" where
  "ex_kits4 =
     [[(''operation_state_datetime'', PStr ''2024-01-15T08:30:00''),
       (''operation_state'', PDecimal False 20 (- 1)), (''plan_id'', PInt 7),
       (''signal_id'', PStr ''101''),
       (''location'', PDict [(''latitude'', PStr ''30.1''), (''longitude'', PStr ''-97.7'')]),
       (''location_name'', PStr ''Main & 5th''),
       (''primary_st'', PStr ''Main''), (''cross_st'', PStr ''5th''),
       (''processed_datetime'', PStr ''2024-01-15T08:35:00'')],
      [(''operation_state_datetime'', PStr ''2024-01-15T09:05:07''),
       (''operation_state'', PInt 1), (''plan_id'', PDecimal False 3 0),
       (''signal_id'', PStr ''102''),
       (''processed_datetime'', PStr ''2024-01-15T08:35:00'')]]"

definition ex_kits5 :: "pydict list" where
  "ex_kits5 =
     [[(''operation_state_datetime'', PStr ''2024-01-15T08:30:00''),
       (''operation_state'', PInt 2), (''plan_id'', PInt 7),
       (''signal_id'', PStr ''101''),
       (''location'', PDict [(''latitude'', PStr ''30.1''), (''longitude'', PStr ''-97.7'')]),
       (''location_name'', PStr ''Main & 5th''),
       (''primary_st'', PStr ''Main''), (''cross_st'', PStr ''5th''),
       (''processed_datetime'', PStr ''2024-01-15T08:35:00'')],
      [(''operation_state_datetime'', PStr ''2024-01-15T09:05:07''),
       (''operation_state'', PInt 1), (''plan_id'', PInt 3),
       (''signal_id'', PStr ''102''),
       (''processed_datetime'', PStr ''2024-01-15T08:35:00'')]]"

definition ex_kits6 :: "pydict list" where
  "ex_kits6 =
     [[(''operation_state_datetime'', PStr ''2024-01-15T08:30:00''),
       (''operation_state'', PInt 2), (''plan_id'', PInt 7),
       (''signal_id'', PStr ''101''), (''location'', PStr ''(-97.7, 30.1)''),
       (''location_name'', PStr ''Main & 5th''),
       (''primary_st'', PStr ''Main''), (''cross_st'', PStr ''5th''),
       (''processed_datetime'', PStr ''2024-01-15T08:35:00'')],
      [(''operation_state_datetime'', PStr ''2024-01-15T09:05:07''),
       (''operation_state'', PInt 1), (''plan_id'', PInt 3),
       (''signal_id'', PStr ''102''),
       (''processed_datetime'', PStr ''2024-01-15T08:35:00'')]]"

definition ex_deletes :: "pydict list" where
  "ex_deletes = [[(''signal_id'', PStr ''103''), ('':deleted'', PBool True)]]"

text \<open>Three runs that fail: the database is down, the portal answers 500, and the asset
  record of signal 101 has no location.\<close>

definition db_down_env :: env where
  "db_down_env = example_env\<lparr>kits_db := Inl (External ''OperationalError'')\<rparr>"

definition http_500_env :: env where
  "http_500_env =
     example_env\<lparr>http_get := (\<lambda>url params. Inr \<lparr>status_code = 500, json_body = Inr []\<rparr>)\<rparr>"

definition no_location_env :: env where
  "no_location_env =
     example_env\<lparr>http_get := (\<lambda>url params.
         if url = ''https://data.austintexas.gov/resource/5zpr-dehc.json''
         then Inr \<lparr>status_code = 200, json_body = Inr published_101_103\<rparr>
         else Inr \<lparr>status_code = 200, json_body = Inr no_location_assets\<rparr>)\<rparr>"

definition nl_kits2 :: "pydict list" where
  "nl_kits2 =
     [[(''operation_state_datetime'',
          PDatetime \<lparr>dt_year = 2024, dt_month = 1, dt_day = 15, dt_hour = 8, dt_minute = 30,
                     dt_second = 0, dt_microsecond = 0\<rparr>),
       (''operation_state'', PDecimal False 20 (- 1)), (''plan_id'', PInt 7),
       (''signal_id'', PStr ''101''), (''location'', PNone),
       (''location_name'', PStr ''Main & 5th''), (''primary_st'', PNone),
       (''cross_st'', PNone)],
      [(''operation_state_datetime'',
          PDatetime \<lparr>dt_year = 2024, dt_month = 1, dt_day = 15, dt_hour = 9, dt_minute = 5,
                     dt_second = 7, dt_microsecond = 0\<rparr>),
       (''operation_state'', PInt 1), (''plan_id'', PDecimal False 3 0),
       (''signal_id'', PStr ''102'')]]"

definition nl_kits3 :: "pydict list" where
  "nl_kits3 =
     [[(''operation_state_datetime'', PStr ''2024-01-15T08:30:00''),
       (''operation_state'', PDecimal False 20 (- 1)), (''plan_id'', PInt 7),
       (''signal_id'', PStr ''101''), (''location'', PNone),
       (''location_name'', PStr ''Main & 5th''), (''primary_st'', PNone),
       (''cross_st'', PNone)],
      [(''operation_state_datetime'', PStr ''2024-01-15T09:05:07''),
       (''operation_state'', PInt 1), (''plan_id'', PDecimal False 3 0),
       (''signal_id'', PStr ''102'')]]"

definition nl_kits5 :: "pydict list" where
  "nl_kits5 =
     [[(''operation_state_datetime'', PStr ''2024-01-15T08:30:00''),
       (''operation_state'', PInt 2), (''plan_id'', PInt 7),
       (''signal_id'', PStr ''101''), (''location'', PNone),
       (''location_name'', PStr ''Main & 5th''), (''primary_st'', PNone),
       (''cross_st'', PNone),
       (''processed_datetime'', PStr ''2024-01-15T08:35:00'')],
      [(''operation_state_datetime'', PStr ''2024-01-15T09:05:07''),
       (''operation_state'', PInt 1), (''plan_id'', PInt 3),
       (''signal_id'', PStr ''102''),
       (''processed_datetime'', PStr ''2024-01-15T08:35:00'')]]"

section \<open>Loops and lookups\<close>

lemma for_each_Cons_Inr:
  "for_each f (x # xs) = Inr ys \<longleftrightarrow>
     (\<exists>y ys'. ys = y # ys' \<and> f x = Inr y \<and> for_each f xs = Inr ys')"
  by (auto split: sum.splits)

lemma for_each_list_all2:
  "for_each f xs = Inr ys \<longleftrightarrow> list_all2 (\<lambda>x y. f x = Inr y) xs ys"
proof (induction xs arbitrary: ys)
  case Nil
  then show ?case by auto
next
  case (Cons x xs)
  show ?case
    unfolding for_each_Cons_Inr list_all2_Cons1 Cons.IH by auto
qed

lemma for_each_length: "for_each f xs = Inr ys \<Longrightarrow> length ys = length xs"
  by (simp add: for_each_list_all2 list_all2_lengthD)

lemma for_each_nth: "for_each f xs = Inr ys \<Longrightarrow> i < length xs \<Longrightarrow> f (xs ! i) = Inr (ys ! i)"
  unfolding for_each_list_all2 by (rule list_all2_nthD)

lemma for_each_map:
  "(\<And>x. x \<in> set xs \<Longrightarrow> f x = Inr (g x)) \<Longrightarrow> for_each f xs = Inr (map g xs)"
  by (induction xs) auto

lemma subscript_all_ok:
  "\<forall>s \<in> set xs. map_of s key \<noteq> None \<Longrightarrow>
   subscript_all key xs = Inr (map (\<lambda>s. dict_get s key) xs)"
  by (induction xs) (auto simp: dict_item_def dict_get_def)

section \<open>The reconciler\<close>

lemma collect_deletes_filter:
  "collect_deletes ks vs = map delete_marker (filter (\<lambda>v. \<not> py_in v ks) vs)"
  by (induction vs) auto

lemma py_eq_PStr: "py_eq v (PStr s) \<longleftrightarrow> v = PStr s"
  by (cases v) (auto simp: py_eq.simps)

lemma py_in_strings:
  "\<forall>k \<in> set ks. \<exists>s. k = PStr s \<Longrightarrow> py_in v ks \<longleftrightarrow> v \<in> set ks"
  unfolding py_in_def by (metis py_eq_PStr)

text \<open>
  C1. When every source record carries a string \<^verbatim>\<open>signal_id\<close> and every published record
  carries a \<^verbatim>\<open>signal_id\<close>, \<^verbatim>\<open>identify_deletes\<close> returns one marker
  \<^verbatim>\<open>{"signal_id": id, ":deleted": True}\<close> for each published record, in the order of the
  published list, whose id is not the id of any source record; a string is equal to
  nothing but the same string, so the comparison is string equality. The ids of the
  markers and the ids of the source records are disjoint.
\<close>

theorem identify_deletes_spec:
  assumes S: "\<forall>s \<in> set S. \<exists>i. map_of s ''signal_id'' = Some (PStr i)"
    and P: "\<forall>p \<in> set P. map_of p ''signal_id'' \<noteq> None"
  shows "identify_deletes S P =
           Inr (map delete_marker (filter (\<lambda>v. v \<notin> set (signal_ids S)) (signal_ids P)))
         \<and> set (filter (\<lambda>v. v \<notin> set (signal_ids S)) (signal_ids P)) \<inter> set (signal_ids S) = {}"
proof -
  have kits: "subscript_all ''signal_id'' S = Inr (signal_ids S)"
    unfolding signal_ids_def using S by (intro subscript_all_ok) auto
  have soc: "subscript_all ''signal_id'' P = Inr (signal_ids P)"
    unfolding signal_ids_def using P by (intro subscript_all_ok) auto
  have strs: "\<forall>k \<in> set (signal_ids S). \<exists>s. k = PStr s"
    using S by (auto simp: signal_ids_def dict_get_def)
  have "collect_deletes (signal_ids S) (signal_ids P) =
          map delete_marker (filter (\<lambda>v. v \<notin> set (signal_ids S)) (signal_ids P))"
    unfolding collect_deletes_filter using py_in_strings [OF strs] by simp
  then show ?thesis
    by (auto simp: identify_deletes_def kits soc)
qed

theorem identify_deletes_spec_witness:
  "map (\<lambda>s. map_of s ''signal_id'') source_101_102 = [Some (PStr ''101''), Some (PStr ''102'')]
   \<and> map (\<lambda>p. map_of p ''signal_id'') published_101_103
       = [Some (PStr ''101''), Some (PStr ''103'')]
   \<and> identify_deletes source_101_102 published_101_103
       = Inr [[(''signal_id'', PStr ''103''), ('':deleted'', PBool True)]]"
proof -
  have S: "\<forall>s \<in> set source_101_102. \<exists>i. map_of s ''signal_id'' = Some (PStr i)"
    by (simp add: source_101_102_def)
  have P: "\<forall>p \<in> set published_101_103. map_of p ''signal_id'' \<noteq> None"
    by (simp add: published_101_103_def)
  from identify_deletes_spec [OF S P] show ?thesis
    by (simp add: signal_ids_def dict_get_def delete_marker_def
          source_101_102_def published_101_103_def)
qed

section \<open>Location formatting\<close>

lemma format_location_absent:
  "map_of r ''location'' = None \<Longrightarrow> format_location L r = Inr r"
  by (simp add: format_location_def method_get_def dict_get_def)

lemma format_location_dict:
  "map_of r ''location'' = Some (PDict d) \<Longrightarrow>
   format_location L r =
     Inr (if py_truthy (dict_get d ''latitude'') \<and> py_truthy (dict_get d ''longitude'')
          then AList.update ''location''
                 (location_text L (dict_get d ''longitude'') (dict_get d ''latitude'')) r
          else r)"
  by (simp add: format_location_def method_get_def location_text_def)

lemma format_location_other:
  "map_of r ''location'' = Some v \<Longrightarrow> \<forall>d. v \<noteq> PDict d \<Longrightarrow>
   format_location L r = Inl AttributeError"
  by (cases v) (auto simp: format_location_def method_get_def)

text \<open>
  C3, as the code has it. On a collection whose records carry no \<^verbatim>\<open>location\<close> or a dict,
  \<^verbatim>\<open>format_locations\<close> returns normally and keeps the number of records. A record whose
  location dict has a latitude and a longitude that are both true in the sense of
  Python (present, and neither \<^verbatim>\<open>None\<close>, zero nor empty) gets the text \<^verbatim>\<open>"(lon, lat)"\<close> as
  its \<^verbatim>\<open>location\<close>; every other record is left exactly as it was.
\<close>

theorem format_locations_spec:
  assumes "\<forall>r \<in> set rs. map_of r ''location'' = None \<or> (\<exists>d. map_of r ''location'' = Some (PDict d))"
  shows "\<exists>rs'. format_locations L rs = Inr rs' \<and> length rs' = length rs \<and>
           (\<forall>i < length rs.
              case map_of (rs ! i) ''location'' of
                Some (PDict d) \<Rightarrow>
                  if py_truthy (dict_get d ''latitude'') \<and> py_truthy (dict_get d ''longitude'')
                  then rs' ! i = AList.update ''location''
                         (location_text L (dict_get d ''longitude'') (dict_get d ''latitude''))
                         (rs ! i)
                  else rs' ! i = rs ! i
              | _ \<Rightarrow> rs' ! i = rs ! i)"
proof -
  define g where "g r =
    (case map_of r ''location'' of
       Some (PDict d) \<Rightarrow>
         if py_truthy (dict_get d ''latitude'') \<and> py_truthy (dict_get d ''longitude'')
         then AList.update ''location''
                (location_text L (dict_get d ''longitude'') (dict_get d ''latitude'')) r
         else r
     | _ \<Rightarrow> r)" for r
  have "format_location L r = Inr (g r)" if "r \<in> set rs" for r
    using assms that
    by (auto simp: g_def format_location_absent format_location_dict)
  then have eq: "format_locations L rs = Inr (map g rs)"
    unfolding format_locations_def by (rule for_each_map)
  have "\<forall>i < length rs.
          case map_of (rs ! i) ''location'' of
            Some (PDict d) \<Rightarrow>
              if py_truthy (dict_get d ''latitude'') \<and> py_truthy (dict_get d ''longitude'')
              then map g rs ! i = AList.update ''location''
                     (location_text L (dict_get d ''longitude'') (dict_get d ''latitude''))
                     (rs ! i)
              else map g rs ! i = rs ! i
          | _ \<Rightarrow> map g rs ! i = rs ! i"
    by (auto simp: g_def split: option.splits pyval.splits)
  with eq show ?thesis by auto
qed

theorem format_locations_spec_witness:
  "map (\<lambda>r. map_of r ''location'') location_examples
     = [Some (PDict [(''latitude'', PDecimal False 301 (- 1)),
                     (''longitude'', PDecimal True 977 (- 1))]),
        Some (PDict []), None]
   \<and> format_locations example_lib location_examples
       = Inr [[(''location'', PStr ''(-97.7, 30.1)'')],
              [(''location'', PDict [])],
              [(''signal_id'', PStr ''7'')]]"
proof -
  have h: "\<forall>r \<in> set location_examples.
      map_of r ''location'' = None \<or> (\<exists>d. map_of r ''location'' = Some (PDict d))"
    by (simp add: location_examples_def)
  have ev: "format_locations example_lib location_examples
       = Inr [[(''location'', PStr ''(-97.7, 30.1)'')],
              [(''location'', PDict [])],
              [(''signal_id'', PStr ''7'')]]"
    by code_simp
  from format_locations_spec [OF h, of example_lib] ev show ?thesis
    by (simp add: location_examples_def)
qed

text \<open>A latitude of zero is present and the location stays a dict.\<close>

theorem format_locations_counterexample:
  "map (\<lambda>r. map_of r ''location'') equator_example
     = [Some (PDict [(''latitude'', PInt 0), (''longitude'', PDecimal True 977 (- 1))])]
   \<and> format_locations example_lib equator_example = Inr equator_example"
  by code_simp

section \<open>More on the loops\<close>

lemma for_each_ok:
  "(\<And>x. x \<in> set xs \<Longrightarrow> \<exists>y. f x = Inr y) \<Longrightarrow> \<exists>ys. for_each f xs = Inr ys"
  by (induction xs) (fastforce split: sum.splits)+

lemma for_each_idem:
  assumes f: "\<And>x y. f x = Inr y \<Longrightarrow> f y = Inr y"
  shows "for_each f xs = Inr ys \<Longrightarrow> for_each f ys = Inr ys"
proof (induction xs arbitrary: ys)
  case Nil
  then show ?case by simp
next
  case (Cons x xs)
  then obtain y ys' where ys: "ys = y # ys'" and y: "f x = Inr y" and r: "for_each f xs = Inr ys'"
    unfolding for_each_Cons_Inr by blast
  show ?case unfolding ys using f [OF y] Cons.IH [OF r] by simp
qed

lemma for_each_again:
  assumes f: "\<And>x y. f x = Inr y \<Longrightarrow> f y = (if y = x then Inr y else Inl e)"
  shows "for_each f xs = Inr ys \<Longrightarrow> for_each f ys = (if ys = xs then Inr ys else Inl e)"
proof (induction xs arbitrary: ys)
  case Nil
  then show ?case by simp
next
  case (Cons x xs)
  then obtain y ys' where ys: "ys = y # ys'" and y: "f x = Inr y" and r: "for_each f xs = Inr ys'"
    unfolding for_each_Cons_Inr by blast
  show ?case unfolding ys using f [OF y] Cons.IH [OF r] r by auto
qed

lemma for_each_frame:
  assumes "\<And>x y. f x = Inr y \<Longrightarrow> \<forall>k. k \<notin> K \<longrightarrow> map_of y k = map_of x k"
    and "for_each f xs = Inr ys"
  shows "frame K xs ys"
  unfolding frame_def
  using for_each_length [OF assms(2)] for_each_nth [OF assms(2)] assms(1) by blast

section \<open>Type coercion\<close>

lemma convert_keys_result:
  "convert_keys L ks r = Inr r' \<Longrightarrow>
     (\<forall>k. k \<notin> set ks \<longrightarrow> map_of r' k = map_of r k) \<and>
     (\<forall>k \<in> set ks. \<exists>v n. map_of r k = Some v \<and> py_int L v = Inr n \<and> map_of r' k = Some (PInt n))"
proof (induction ks arbitrary: r)
  case Nil
  then show ?case by simp
next
  case (Cons k ks)
  from Cons.prems obtain v n where v: "map_of r k = Some v" and n: "py_int L v = Inr n"
    and rest: "convert_keys L ks (AList.update k (PInt n) r) = Inr r'"
    by (auto simp: dict_item_def split: option.splits sum.splits)
  note IH = Cons.IH [OF rest]
  show ?case
  proof (intro conjI allI ballI impI)
    fix k' assume "k' \<notin> set (k # ks)"
    with IH show "map_of r' k' = map_of r k'" by (simp add: update_conv')
  next
    fix k' assume k': "k' \<in> set (k # ks)"
    show "\<exists>v n. map_of r k' = Some v \<and> py_int L v = Inr n \<and> map_of r' k' = Some (PInt n)"
    proof (cases "k' \<in> set ks")
      case True
      with IH obtain v' n' where a: "map_of (AList.update k (PInt n) r) k' = Some v'"
        and b: "py_int L v' = Inr n'" and c: "map_of r' k' = Some (PInt n')" by blast
      show ?thesis
      proof (cases "k' = k")
        case True
        with a b have "n' = n" by (auto simp: update_conv')
        with c v n True show ?thesis by simp
      next
        case False
        with a b c show ?thesis by (simp add: update_conv')
      qed
    next
      case False
      with k' have "k' = k" by simp
      with False IH v n show ?thesis by (simp add: update_conv')
    qed
  qed
qed

lemma convert_keys_ints:
  "\<forall>k \<in> set ks. \<exists>i. map_of r k = Some (PInt i) \<Longrightarrow> convert_keys L ks r = Inr r"
  by (induction ks) (auto simp: dict_item_def update_triv)

lemma convert_keys_idem:
  assumes "convert_keys L ks r = Inr r'"
  shows "convert_keys L ks r' = Inr r'"
  using convert_keys_result [OF assms] by (intro convert_keys_ints) blast

lemma convert_keys_ok:
  "\<forall>k \<in> set ks. \<exists>v n. map_of r k = Some v \<and> py_int L v = Inr n \<Longrightarrow>
   \<exists>r'. convert_keys L ks r = Inr r'"
proof (induction ks arbitrary: r)
  case Nil
  then show ?case by simp
next
  case (Cons k ks)
  then obtain v n where v: "map_of r k = Some v" and n: "py_int L v = Inr n" by auto
  have "\<forall>k' \<in> set ks. \<exists>v' n'.
          map_of (AList.update k (PInt n) r) k' = Some v' \<and> py_int L v' = Inr n'"
    using Cons.prems by (auto simp: update_conv')
  from Cons.IH [OF this] v n show ?case by (simp add: dict_item_def)
qed

text \<open>
  C7. On a collection whose records carry \<^verbatim>\<open>operation_state\<close> and \<^verbatim>\<open>plan_id\<close> with values
  that \<^verbatim>\<open>int()\<close> accepts (integers and decimals always are), \<^verbatim>\<open>convert_decimals\<close> returns
  normally, every such field becomes the integer \<^verbatim>\<open>int(v)\<close> of its value \<open>v\<close>, and no other
  field of any record changes. A decimal is truncated: 2.0 becomes 2.
\<close>

theorem convert_decimals_spec:
  assumes "\<forall>r \<in> set rs. \<forall>k \<in> set decimal_keys. \<exists>v n. map_of r k = Some v \<and> py_int L v = Inr n"
  shows "\<exists>rs'. convert_decimals L decimal_keys rs = Inr rs' \<and> length rs' = length rs \<and>
           (\<forall>i < length rs.
              (\<forall>k \<in> set decimal_keys. \<exists>v n.
                 map_of (rs ! i) k = Some v \<and> py_int L v = Inr n \<and>
                 map_of (rs' ! i) k = Some (PInt n)) \<and>
              (\<forall>k. k \<notin> set decimal_keys \<longrightarrow> map_of (rs' ! i) k = map_of (rs ! i) k))"
proof -
  have "\<exists>rs'. convert_decimals L decimal_keys rs = Inr rs'"
    unfolding convert_decimals_def using assms by (intro for_each_ok convert_keys_ok) auto
  then obtain rs' where rs': "convert_decimals L decimal_keys rs = Inr rs'" ..
  have len: "length rs' = length rs"
    using rs' unfolding convert_decimals_def by (rule for_each_length)
  have "(\<forall>k \<in> set decimal_keys. \<exists>v n.
           map_of (rs ! i) k = Some v \<and> py_int L v = Inr n \<and>
           map_of (rs' ! i) k = Some (PInt n)) \<and>
        (\<forall>k. k \<notin> set decimal_keys \<longrightarrow> map_of (rs' ! i) k = map_of (rs ! i) k)"
    if "i < length rs" for i
  proof -
    have "convert_keys L decimal_keys (rs ! i) = Inr (rs' ! i)"
      using rs' that unfolding convert_decimals_def by (rule for_each_nth)
    from convert_keys_result [OF this] show ?thesis by blast
  qed
  with rs' len show ?thesis by blast
qed

theorem convert_decimals_spec_witness:
  "map (map_of (hd decimal_example)) decimal_keys
     = [Some (PDecimal False 20 (- 1)), Some (PInt 5)]
   \<and> py_int example_lib (PDecimal False 20 (- 1)) = Inr 2
   \<and> convert_decimals example_lib decimal_keys decimal_example = Inr converted_example"
proof -
  have h: "\<forall>r \<in> set decimal_example. \<forall>k \<in> set decimal_keys.
             \<exists>v n. map_of r k = Some v \<and> py_int example_lib v = Inr n"
    by (simp add: decimal_example_def decimal_keys_def)
  have ev: "convert_decimals example_lib decimal_keys decimal_example = Inr converted_example"
    by code_simp
  have two: "py_int example_lib (PDecimal False 20 (- 1)) = Inr 2"
    by code_simp
  from convert_decimals_spec [OF h] ev two show ?thesis
    by (simp add: decimal_example_def decimal_keys_def)
qed

section \<open>Applying a pass twice\<close>

lemma stringify_signal_id_idem:
  "stringify_signal_id L key r = Inr r' \<Longrightarrow> stringify_signal_id L key r' = Inr r'"
  by (auto simp: stringify_signal_id_def dict_item_def update_conv' split: option.splits)

lemma format_location_again:
  assumes "format_location L r = Inr r'"
  shows "format_location L r' = (if r' = r then Inr r' else Inl AttributeError)"
proof (cases "map_of r ''location''")
  case None
  with assms show ?thesis by (simp add: format_location_absent)
next
  case (Some v)
  show ?thesis
  proof (cases "\<exists>d. v = PDict d")
    case False
    with Some assms show ?thesis by (simp add: format_location_other)
  next
    case True
    then obtain d where d: "v = PDict d" ..
    show ?thesis
    proof (cases "py_truthy (dict_get d ''latitude'') \<and> py_truthy (dict_get d ''longitude'')")
      case False
      with assms Some d show ?thesis by (auto simp: format_location_dict)
    next
      case True
      with assms Some d have r': "r' = AList.update ''location''
          (location_text L (dict_get d ''longitude'') (dict_get d ''latitude'')) r"
        by (simp add: format_location_dict)
      then have loc: "map_of r' ''location''
          = Some (location_text L (dict_get d ''longitude'') (dict_get d ''latitude''))"
        by (simp add: update_conv')
      with Some d have "r' \<noteq> r" by (auto simp: location_text_def)
      moreover from loc have "format_location L r' = Inl AttributeError"
        by (rule format_location_other) (simp add: location_text_def)
      ultimately show ?thesis by simp
    qed
  qed
qed

text \<open>
  C4, as the code has it. Identifier stringification and type coercion are idempotent:
  when a first application returns a collection, a second one returns the same
  collection. Location formatting is not: a second application returns the same
  collection only when the first one rewrote no location; once a location is a string,
  the next application raises \<^verbatim>\<open>AttributeError\<close>, since a string has no \<^verbatim>\<open>get\<close>.
\<close>

theorem passes_twice:
  "(stringify_signal_ids L key rs1 = Inr rs1' \<longrightarrow> stringify_signal_ids L key rs1' = Inr rs1')
   \<and> (convert_decimals L keys rs5 = Inr rs5' \<longrightarrow> convert_decimals L keys rs5' = Inr rs5')
   \<and> (format_locations L rs6 = Inr rs6' \<longrightarrow>
        format_locations L rs6' = (if rs6' = rs6 then Inr rs6' else Inl AttributeError))"
proof (intro conjI impI)
  assume "stringify_signal_ids L key rs1 = Inr rs1'"
  then show "stringify_signal_ids L key rs1' = Inr rs1'"
    unfolding stringify_signal_ids_def
    by (rule for_each_idem [rotated]) (rule stringify_signal_id_idem)
next
  assume "convert_decimals L keys rs5 = Inr rs5'"
  then show "convert_decimals L keys rs5' = Inr rs5'"
    unfolding convert_decimals_def
    by (rule for_each_idem [rotated]) (rule convert_keys_idem)
next
  assume "format_locations L rs6 = Inr rs6'"
  then show "format_locations L rs6' = (if rs6' = rs6 then Inr rs6' else Inl AttributeError)"
    unfolding format_locations_def
    by (rule for_each_again [rotated]) (rule format_location_again)
qed

theorem passes_twice_witness:
  "stringify_signal_ids example_lib ''signal_id'' id_example = Inr [[(''signal_id'', PStr ''101'')]]
   \<and> stringify_signal_ids example_lib ''signal_id'' [[(''signal_id'', PStr ''101'')]]
       = Inr [[(''signal_id'', PStr ''101'')]]
   \<and> convert_decimals example_lib decimal_keys decimal_example = Inr converted_example
   \<and> convert_decimals example_lib decimal_keys converted_example = Inr converted_example
   \<and> format_locations example_lib coordinates_example = Inr formatted_example
   \<and> formatted_example \<noteq> coordinates_example
   \<and> format_locations example_lib formatted_example = Inl AttributeError"
proof -
  have s: "stringify_signal_ids example_lib ''signal_id'' id_example
             = Inr [[(''signal_id'', PStr ''101'')]]"
    by code_simp
  have c: "convert_decimals example_lib decimal_keys decimal_example = Inr converted_example"
    by code_simp
  have f: "format_locations example_lib coordinates_example = Inr formatted_example"
    by code_simp
  have ne: "formatted_example \<noteq> coordinates_example"
    by (simp add: formatted_example_def coordinates_example_def)
  from passes_twice [of example_lib "''signal_id''" id_example "[[(''signal_id'', PStr ''101'')]]"
      decimal_keys decimal_example converted_example coordinates_example formatted_example]
    s c f ne
  show ?thesis by simp
qed

text \<open>Formatting the formatted collection again raises.\<close>

theorem format_locations_twice_counterexample:
  "format_locations example_lib coordinates_example = Inr formatted_example
   \<and> format_locations example_lib formatted_example = Inl AttributeError"
  by code_simp

section \<open>Asset merge\<close>

lemma matched_signals_Cons_Inr:
  "matched_signals (a # assets) r = Inr ms \<longleftrightarrow>
     (\<exists>x y ms'. map_of a ''signal_id'' = Some x \<and> map_of r ''signal_id'' = Some y \<and>
        matched_signals assets r = Inr ms' \<and> ms = (if py_eq x y then a # ms' else ms'))"
  by (auto simp: dict_item_def split: option.splits sum.splits)

lemma matched_signals_Inr:
  "matched_signals assets r = Inr ms \<Longrightarrow> ms = matches assets r"
proof (induction assets arbitrary: ms)
  case Nil
  then show ?case by (simp add: matches_def)
next
  case (Cons a assets)
  then obtain x y ms' where x: "map_of a ''signal_id'' = Some x"
    and y: "map_of r ''signal_id'' = Some y"
    and rest: "matched_signals assets r = Inr ms'"
    and ms: "ms = (if py_eq x y then a # ms' else ms')"
    unfolding matched_signals_Cons_Inr by blast
  from Cons.IH [OF rest] x y ms show ?case
    by (simp add: matches_def dict_get_def)
qed

lemma matched_signals_ok:
  assumes "map_of r ''signal_id'' \<noteq> None" and "\<forall>a \<in> set assets. map_of a ''signal_id'' \<noteq> None"
  shows "matched_signals assets r = Inr (matches assets r)"
proof -
  have "\<exists>ms. matched_signals assets r = Inr ms"
    using assms by (induction assets) (auto simp: dict_item_def)
  then show ?thesis using matched_signals_Inr by blast
qed

lemma map_of_dict_update:
  "map_of (dict_update r (map (\<lambda>key. (key, f key)) ks)) k
     = (if k \<in> set ks then Some (f k) else map_of r k)"
  unfolding dict_update_def
  by (induction ks arbitrary: r rule: rev_induct) (auto simp: update_conv')

lemma merge_signal_Inr:
  assumes "merge_signal assets r = Inr r'"
  shows "case matches assets r of
           [] \<Rightarrow> r' = r
         | m # _ \<Rightarrow> \<forall>k. map_of r' k = (if k \<in> set asset_fields then Some (dict_get m k) else map_of r k)"
proof -
  from assms obtain ms where ms: "matched_signals assets r = Inr ms"
    by (auto simp: merge_signal_def split: sum.splits)
  then have eq: "ms = matches assets r" by (rule matched_signals_Inr)
  show ?thesis
    using assms ms unfolding eq [symmetric]
    by (cases ms) (auto simp: merge_signal_def map_of_dict_update)
qed

lemma merge_signal_ok:
  assumes "map_of r ''signal_id'' \<noteq> None" and "\<forall>a \<in> set assets. map_of a ''signal_id'' \<noteq> None"
  shows "\<exists>r'. merge_signal assets r = Inr r'"
  using matched_signals_ok [OF assms]
  by (auto simp: merge_signal_def split: list.splits)

text \<open>
  C5. When every source record and every asset record carries a \<^verbatim>\<open>signal_id\<close>,
  \<^verbatim>\<open>merge_signal_asset_data\<close> returns normally. A source record with no asset record of an
  equal \<^verbatim>\<open>signal_id\<close> is left as it was. Otherwise the first such asset record, in the
  order of the asset list, gives the record its \<^verbatim>\<open>location\<close>, \<^verbatim>\<open>location_name\<close>,
  \<^verbatim>\<open>primary_st\<close> and \<^verbatim>\<open>cross_st\<close>, and the other fields stay.
\<close>

theorem merge_signal_asset_data_spec:
  assumes "\<forall>r \<in> set rs. map_of r ''signal_id'' \<noteq> None"
    and "\<forall>a \<in> set assets. map_of a ''signal_id'' \<noteq> None"
  shows "\<exists>rs'. merge_signal_asset_data rs assets = Inr rs' \<and> length rs' = length rs \<and>
           (\<forall>i < length rs.
              case matches assets (rs ! i) of
                [] \<Rightarrow> rs' ! i = rs ! i
              | m # _ \<Rightarrow>
                  (\<forall>k \<in> set asset_fields. dict_get (rs' ! i) k = dict_get m k) \<and>
                  (\<forall>k. k \<notin> set asset_fields \<longrightarrow> map_of (rs' ! i) k = map_of (rs ! i) k))"
proof -
  have "\<exists>rs'. merge_signal_asset_data rs assets = Inr rs'"
    unfolding merge_signal_asset_data_def
    using assms by (intro for_each_ok merge_signal_ok) auto
  then obtain rs' where rs': "merge_signal_asset_data rs assets = Inr rs'" ..
  have len: "length rs' = length rs"
    using rs' unfolding merge_signal_asset_data_def by (rule for_each_length)
  have "case matches assets (rs ! i) of
          [] \<Rightarrow> rs' ! i = rs ! i
        | m # _ \<Rightarrow>
            (\<forall>k \<in> set asset_fields. dict_get (rs' ! i) k = dict_get m k) \<and>
            (\<forall>k. k \<notin> set asset_fields \<longrightarrow> map_of (rs' ! i) k = map_of (rs ! i) k)"
    if "i < length rs" for i
  proof -
    have "merge_signal assets (rs ! i) = Inr (rs' ! i)"
      using rs' that unfolding merge_signal_asset_data_def by (rule for_each_nth)
    from merge_signal_Inr [OF this] show ?thesis
      by (auto simp: dict_get_def split: list.splits)
  qed
  with rs' len show ?thesis by blast
qed

theorem merge_signal_asset_data_spec_witness:
  "map (\<lambda>r. map_of r ''signal_id'') source_101_102 = [Some (PStr ''101''), Some (PStr ''102'')]
   \<and> map (\<lambda>a. map_of a ''signal_id'') no_location_assets
       = [Some (PStr ''101''), Some (PStr ''101'')]
   \<and> matches no_location_assets (source_101_102 ! 0) = no_location_assets
   \<and> matches no_location_assets (source_101_102 ! 1) = []
   \<and> merge_signal_asset_data source_101_102 no_location_assets = Inr merged_example
   \<and> merge_signal_asset_data source_101_102 [hd no_location_assets] = Inr merged_example"
proof -
  have S: "\<forall>r \<in> set source_101_102. map_of r ''signal_id'' \<noteq> None"
    by (simp add: source_101_102_def)
  have A: "\<forall>a \<in> set no_location_assets. map_of a ''signal_id'' \<noteq> None"
    by (simp add: no_location_assets_def)
  have m0: "matches no_location_assets (source_101_102 ! 0) = no_location_assets"
    by code_simp
  have m1: "matches no_location_assets (source_101_102 ! 1) = []"
    by code_simp
  have ev: "merge_signal_asset_data source_101_102 no_location_assets = Inr merged_example"
    by code_simp
  have ev1: "merge_signal_asset_data source_101_102 [hd no_location_assets] = Inr merged_example"
    by code_simp
  from merge_signal_asset_data_spec [OF S A] m0 m1 ev ev1 show ?thesis
    by (simp add: source_101_102_def no_location_assets_def)
qed

text \<open>
  C9. When \<^verbatim>\<open>merge_signal_asset_data\<close> returns and a source record has a matching asset
  record, a descriptive field that the first matching asset record lacks is set on the
  source record with the value \<^verbatim>\<open>None\<close>: the key is present afterwards.
\<close>

theorem merge_sets_missing_fields_to_None:
  assumes "merge_signal_asset_data rs assets = Inr rs'"
    and "i < length rs"
    and "matches assets (rs ! i) = m # ms"
    and "k \<in> set asset_fields"
    and "map_of m k = None"
  shows "map_of (rs' ! i) k = Some PNone"
proof -
  have "merge_signal assets (rs ! i) = Inr (rs' ! i)"
    using assms(1,2) unfolding merge_signal_asset_data_def by (rule for_each_nth)
  from merge_signal_Inr [OF this] assms(3-5) show ?thesis
    by (simp add: dict_get_def)
qed

theorem merge_sets_missing_fields_to_None_witness:
  "merge_signal_asset_data source_101_102 no_location_assets = Inr merged_example
   \<and> map_of (hd no_location_assets) ''location'' = None
   \<and> map_of (merged_example ! 0) ''location'' = Some PNone"
proof -
  have h1: "merge_signal_asset_data source_101_102 no_location_assets = Inr merged_example"
    by code_simp
  have h2: "0 < length source_101_102"
    by (simp add: source_101_102_def)
  have h3: "matches no_location_assets (source_101_102 ! 0)
              = hd no_location_assets # tl no_location_assets"
    by code_simp
  have h4: "''location'' \<in> set asset_fields"
    by (simp add: asset_fields_def)
  have h5: "map_of (hd no_location_assets) ''location'' = None"
    by (simp add: no_location_assets_def)
  from merge_sets_missing_fields_to_None [OF h1 h2 h3 h4 h5] h1 h5 show ?thesis
    by simp
qed

section \<open>Timestamp localization\<close>

lemma digit_char_value: "d < 10 \<Longrightarrow> digit_value (digit_char d) = d"
proof -
  assume "d < 10"
  then have "d \<in> {0, 1, 2, 3, 4, 5, 6, 7, 8, 9}" by auto
  then show ?thesis by (auto simp: digit_value_def digit_char_def)
qed

lemma digit_char_digit: "d < 10 \<Longrightarrow> digit_char d \<in> set ''0123456789''"
  unfolding digit_char_def by (rule nth_mem) simp

lemma length_fixed_digits [simp]: "length (fixed_digits w n) = w"
  by (induction w arbitrary: n) auto

lemma fixed_digits_zero: "fixed_digits w 0 = replicate w (CHR ''0'')"
  by (induction w) (auto simp: digit_char_def replicate_append_same)

lemma fixed_digits_digits: "list_all (\<lambda>c. c \<in> set ''0123456789'') (fixed_digits w n)"
  by (induction w arbitrary: n) (auto simp: digit_char_digit simp del: set_simps)

lemma nat_of_digits_snoc: "nat_of_digits (s @ [c]) = 10 * nat_of_digits s + digit_value c"
  by (simp add: nat_of_digits_def)

lemma nat_of_fixed_digits: "n < 10 ^ w \<Longrightarrow> nat_of_digits (fixed_digits w n) = n"
proof (induction w arbitrary: n)
  case 0
  then show ?case by (simp add: nat_of_digits_def)
next
  case (Suc w)
  then have "n div 10 < 10 ^ w" by (simp add: less_mult_imp_div_less mult.commute)
  with Suc.IH show ?case
    by (simp add: nat_of_digits_snoc digit_char_value)
qed

lemma zfill_str_nat: "n < 10 ^ w \<Longrightarrow> 0 < w \<Longrightarrow> zfill w (str_nat n) = fixed_digits w n"
proof (induction w arbitrary: n)
  case 0
  then show ?case by simp
next
  case (Suc w)
  show ?case
  proof (cases "n < 10")
    case True
    then show ?thesis
      by (simp add: str_nat.simps [of n] zfill_def fixed_digits_zero)
  next
    case False
    with Suc.prems have w: "0 < w" by (cases w) auto
    from Suc.prems have "n div 10 < 10 ^ w" by (simp add: less_mult_imp_div_less mult.commute)
    from Suc.IH [OF this w] False show ?thesis
      by (simp add: str_nat.simps [of n] zfill_def)
  qed
qed

lemma arrow_format_valid:
  "valid_datetime d \<Longrightarrow> arrow_format \<lparr>a_datetime = d, a_tzinfo = tz\<rparr> = iso_seconds d"
  by (simp add: valid_datetime_def arrow_format_def iso_seconds_def zfill_str_nat)

lemma iso_seconds_shape: "iso_shape (iso_seconds d)"
  unfolding iso_shape_def iso_seconds_def slice_def
  by (simp add: nth_append fixed_digits_digits del: set_simps fixed_digits.simps)

lemma iso_seconds_fields:
  "valid_datetime d \<Longrightarrow>
   iso_fields (iso_seconds d) =
     (dt_year d, dt_month d, dt_day d, dt_hour d, dt_minute d, dt_second d)"
  unfolding iso_fields_def iso_seconds_def slice_def valid_datetime_def
  by (simp add: nat_of_fixed_digits del: fixed_digits.simps)

lemma localize_signal_datetime:
  "map_of r key = Some (PDatetime d) \<Longrightarrow> valid_datetime d \<Longrightarrow>
   localize_signal L key tz r = Inr (AList.update key (PStr (iso_seconds d)) r)"
  by (simp add: localize_signal_def dict_item_def arrow_get_def arrow_replace_tzinfo_def
        arrow_format_valid)

text \<open>
  C6. On a collection whose records carry a naive datetime under the key,
  \<^verbatim>\<open>localize_operation_state_datetime\<close> returns normally and replaces each datetime by a
  string of the shape \<^verbatim>\<open>YYYY-MM-DDTHH:mm:ss\<close>: nineteen characters, nothing after the
  seconds, and the year, month, day, hour, minute and second it spells are those of
  the datetime.
\<close>

theorem localize_spec:
  assumes "\<forall>r \<in> set rs. \<exists>d. map_of r key = Some (PDatetime d) \<and> valid_datetime d"
  shows "\<exists>rs'. localize_operation_state_datetime L key tz rs = Inr rs' \<and>
           length rs' = length rs \<and>
           (\<forall>i < length rs. \<exists>d s.
              map_of (rs ! i) key = Some (PDatetime d) \<and>
              map_of (rs' ! i) key = Some (PStr s) \<and> iso_shape s \<and>
              iso_fields s =
                (dt_year d, dt_month d, dt_day d, dt_hour d, dt_minute d, dt_second d))"
proof -
  have "\<exists>r'. localize_signal L key tz r = Inr r'" if "r \<in> set rs" for r
    using assms that localize_signal_datetime by blast
  then have "\<exists>rs'. localize_operation_state_datetime L key tz rs = Inr rs'"
    unfolding localize_operation_state_datetime_def by (intro for_each_ok)
  then obtain rs' where rs': "localize_operation_state_datetime L key tz rs = Inr rs'" ..
  have len: "length rs' = length rs"
    using rs' unfolding localize_operation_state_datetime_def by (rule for_each_length)
  have "\<exists>d s. map_of (rs ! i) key = Some (PDatetime d) \<and>
          map_of (rs' ! i) key = Some (PStr s) \<and> iso_shape s \<and>
          iso_fields s = (dt_year d, dt_month d, dt_day d, dt_hour d, dt_minute d, dt_second d)"
    if i: "i < length rs" for i
  proof -
    from assms i obtain d where d: "map_of (rs ! i) key = Some (PDatetime d)"
      and v: "valid_datetime d" by (meson nth_mem)
    have "localize_signal L key tz (rs ! i) = Inr (rs' ! i)"
      using rs' i unfolding localize_operation_state_datetime_def by (rule for_each_nth)
    with localize_signal_datetime [OF d v, of L tz]
    have "rs' ! i = AList.update key (PStr (iso_seconds d)) (rs ! i)" by simp
    then have "map_of (rs' ! i) key = Some (PStr (iso_seconds d))"
      by (simp add: update_conv')
    with d iso_seconds_shape iso_seconds_fields [OF v] show ?thesis by blast
  qed
  with rs' len show ?thesis by blast
qed

theorem localize_spec_witness:
  "valid_datetime example_event_time
   \<and> localize_operation_state_datetime example_lib ''operation_state_datetime'' ''US/Central''
         [[(''operation_state_datetime'', PDatetime example_event_time)]]
       = Inr [[(''operation_state_datetime'', PStr ''2024-01-15T08:30:00'')]]
   \<and> iso_shape ''2024-01-15T08:30:00''
   \<and> iso_fields ''2024-01-15T08:30:00'' = (2024, 1, 15, 8, 30, 0)"
proof -
  have v: "valid_datetime example_event_time"
    by (simp add: valid_datetime_def example_event_time_def)
  then have h: "\<forall>r \<in> set [[(''operation_state_datetime'', PDatetime example_event_time)]].
      \<exists>d. map_of r ''operation_state_datetime'' = Some (PDatetime d) \<and> valid_datetime d"
    by simp
  have ev: "localize_operation_state_datetime example_lib ''operation_state_datetime''
              ''US/Central'' [[(''operation_state_datetime'', PDatetime example_event_time)]]
            = Inr [[(''operation_state_datetime'', PStr ''2024-01-15T08:30:00'')]]"
    by code_simp
  have sh: "iso_shape ''2024-01-15T08:30:00''"
    by code_simp
  have fl: "iso_fields ''2024-01-15T08:30:00'' = (2024, 1, 15, 8, 30, 0)"
    by code_simp
  from localize_spec [OF h, of example_lib "''US/Central''"] v ev sh fl show ?thesis
    by simp
qed

section \<open>What a pass leaves alone\<close>

lemma stringify_signal_id_frame:
  "stringify_signal_id L key r = Inr r' \<Longrightarrow> \<forall>k. k \<notin> {key} \<longrightarrow> map_of r' k = map_of r k"
  by (auto simp: stringify_signal_id_def dict_item_def update_conv' split: option.splits)

lemma merge_signal_frame:
  "merge_signal assets r = Inr r' \<Longrightarrow> \<forall>k. k \<notin> set asset_fields \<longrightarrow> map_of r' k = map_of r k"
  using merge_signal_Inr [of assets r r'] by (auto split: list.splits)

lemma localize_signal_frame:
  "localize_signal L key tz r = Inr r' \<Longrightarrow> \<forall>k. k \<notin> {key} \<longrightarrow> map_of r' k = map_of r k"
  by (auto simp: localize_signal_def dict_item_def update_conv' split: option.splits sum.splits)

lemma set_processed_datetime_frame:
  "frame {''processed_datetime''} rs (set_processed_datetime clk tz n rs)"
proof (induction rs arbitrary: n)
  case Nil
  then show ?case by (simp add: frame_def)
next
  case (Cons r rs)
  have "map_of ((set_processed_datetime clk tz n (r # rs)) ! i) k = map_of ((r # rs) ! i) k"
    if "i < length (r # rs)" "k \<noteq> ''processed_datetime''" for i k
    using that Cons.IH [of "Suc n"]
    by (cases i) (auto simp: frame_def update_conv')
  moreover have "length (set_processed_datetime clk tz n (r # rs)) = length (r # rs)"
    using Cons.IH [of "Suc n"] by (simp add: frame_def)
  ultimately show ?case unfolding frame_def by blast
qed

lemma convert_keys_frame:
  "convert_keys L ks r = Inr r' \<Longrightarrow> \<forall>k. k \<notin> set ks \<longrightarrow> map_of r' k = map_of r k"
  using convert_keys_result by blast

lemma format_location_frame:
  "format_location L r = Inr r' \<Longrightarrow> \<forall>k. k \<notin> {''location''} \<longrightarrow> map_of r' k = map_of r k"
  by (auto simp: format_location_def Let_def update_conv' split: sum.splits if_splits)

text \<open>
  C10. Every pass that returns keeps the number of records and their order, and changes
  no field but its own: \<^verbatim>\<open>signal_id\<close> for the stringification, the four asset fields for
  the merge, \<^verbatim>\<open>operation_state_datetime\<close> for the localization, \<^verbatim>\<open>processed_datetime\<close> for
  the stamping, \<^verbatim>\<open>operation_state\<close> and \<^verbatim>\<open>plan_id\<close> for the coercion, \<^verbatim>\<open>location\<close> for the
  formatting.
\<close>

theorem passes_frame:
  "(stringify_signal_ids L ''signal_id'' rs1 = Inr rs1' \<longrightarrow> frame {''signal_id''} rs1 rs1')
   \<and> (merge_signal_asset_data rs2 assets = Inr rs2' \<longrightarrow> frame (set asset_fields) rs2 rs2')
   \<and> (localize_operation_state_datetime L ''operation_state_datetime'' tz rs3 = Inr rs3' \<longrightarrow>
        frame {''operation_state_datetime''} rs3 rs3')
   \<and> frame {''processed_datetime''} rs4 (set_processed_datetime clk tz4 n rs4)
   \<and> (convert_decimals L decimal_keys rs5 = Inr rs5' \<longrightarrow> frame (set decimal_keys) rs5 rs5')
   \<and> (format_locations L rs6 = Inr rs6' \<longrightarrow> frame {''location''} rs6 rs6')"
proof (intro conjI impI)
  assume "stringify_signal_ids L ''signal_id'' rs1 = Inr rs1'"
  then show "frame {''signal_id''} rs1 rs1'"
    unfolding stringify_signal_ids_def
    by (rule for_each_frame [rotated]) (rule stringify_signal_id_frame)
next
  assume "merge_signal_asset_data rs2 assets = Inr rs2'"
  then show "frame (set asset_fields) rs2 rs2'"
    unfolding merge_signal_asset_data_def
    by (rule for_each_frame [rotated]) (rule merge_signal_frame)
next
  assume "localize_operation_state_datetime L ''operation_state_datetime'' tz rs3 = Inr rs3'"
  then show "frame {''operation_state_datetime''} rs3 rs3'"
    unfolding localize_operation_state_datetime_def
    by (rule for_each_frame [rotated]) (rule localize_signal_frame)
next
  show "frame {''processed_datetime''} rs4 (set_processed_datetime clk tz4 n rs4)"
    by (rule set_processed_datetime_frame)
next
  assume "convert_decimals L decimal_keys rs5 = Inr rs5'"
  then show "frame (set decimal_keys) rs5 rs5'"
    unfolding convert_decimals_def
    by (rule for_each_frame [rotated]) (rule convert_keys_frame)
next
  assume "format_locations L rs6 = Inr rs6'"
  then show "frame {''location''} rs6 rs6'"
    unfolding format_locations_def
    by (rule for_each_frame [rotated]) (rule format_location_frame)
qed

theorem passes_frame_witness:
  "stringify_signal_ids example_lib ''signal_id'' example_rows = Inr ex_kits1
   \<and> frame {''signal_id''} example_rows ex_kits1
   \<and> merge_signal_asset_data ex_kits1 example_assets = Inr ex_kits2
   \<and> frame (set asset_fields) ex_kits1 ex_kits2
   \<and> localize_operation_state_datetime example_lib ''operation_state_datetime'' ''US/Central''
         ex_kits2 = Inr ex_kits3
   \<and> frame {''operation_state_datetime''} ex_kits2 ex_kits3
   \<and> set_processed_datetime (clock example_env) ''US/Central'' 0 ex_kits3 = ex_kits4
   \<and> frame {''processed_datetime''} ex_kits3 ex_kits4
   \<and> convert_decimals example_lib decimal_keys ex_kits4 = Inr ex_kits5
   \<and> frame (set decimal_keys) ex_kits4 ex_kits5
   \<and> format_locations example_lib ex_kits5 = Inr ex_kits6
   \<and> frame {''location''} ex_kits5 ex_kits6"
proof -
  have e1: "stringify_signal_ids example_lib ''signal_id'' example_rows = Inr ex_kits1"
    by code_simp
  have e2: "merge_signal_asset_data ex_kits1 example_assets = Inr ex_kits2"
    by code_simp
  have e3: "localize_operation_state_datetime example_lib ''operation_state_datetime''
              ''US/Central'' ex_kits2 = Inr ex_kits3"
    by code_simp
  have e4: "set_processed_datetime (clock example_env) ''US/Central'' 0 ex_kits3 = ex_kits4"
    by code_simp
  have e5: "convert_decimals example_lib decimal_keys ex_kits4 = Inr ex_kits5"
    by code_simp
  have e6: "format_locations example_lib ex_kits5 = Inr ex_kits6"
    by code_simp
  from passes_frame [where L = example_lib and ?rs1.0 = example_rows and rs1' = ex_kits1
      and ?rs2.0 = ex_kits1 and assets = example_assets and rs2' = ex_kits2
      and ?rs3.0 = ex_kits2 and tz = "''US/Central''" and rs3' = ex_kits3
      and ?rs4.0 = ex_kits3 and clk = "clock example_env" and ?tz4.0 = "''US/Central''" and n = 0
      and ?rs5.0 = ex_kits4 and rs5' = ex_kits5
      and ?rs6.0 = ex_kits5 and rs6' = ex_kits6]
    e1 e2 e3 e4 e5 e6
  show ?thesis by simp
qed

section \<open>The run of \<^verbatim>\<open>main\<close>\<close>

lemma io_bind_Inl [simp]: "io_bind (tr, Inl e) f = (tr, Inl e)"
  by (simp add: io_bind_def)

lemma io_bind_Inr [simp]: "io_bind (tr, Inr x) f = (tr @ fst (f x), snd (f x))"
  by (simp add: io_bind_def split: prod.splits)

lemma get_socrata_data_pair:
  "get_socrata_data E resource_id params =
     ([HttpGet (''https://data.austintexas.gov/resource/'' @ resource_id @ ''.json'') params],
      socrata_result E resource_id params)"
  by (simp add: socrata_result_def get_socrata_data_def Let_def)

lemma upserts_append [simp]: "upserts (xs @ ys) = upserts xs @ upserts ys"
  by (induction xs rule: upserts.induct) auto

lemma stringify_signal_id_string:
  "stringify_signal_id L key r = Inr r' \<Longrightarrow> \<exists>s. map_of r' key = Some (PStr s)"
  by (auto simp: stringify_signal_id_def dict_item_def update_conv' split: option.splits)

lemma stringify_signal_ids_strings:
  assumes "stringify_signal_ids L key rs = Inr rs'"
  shows "\<forall>r \<in> set rs'. \<exists>s. map_of r key = Some (PStr s)"
proof
  fix r assume "r \<in> set rs'"
  then obtain i where i: "i < length rs'" and r: "r = rs' ! i" by (auto simp: in_set_conv_nth)
  from assms have len: "length rs' = length rs"
    unfolding stringify_signal_ids_def by (rule for_each_length)
  with assms i have "stringify_signal_id L key (rs ! i) = Inr (rs' ! i)"
    unfolding stringify_signal_ids_def by (intro for_each_nth) auto
  then show "\<exists>s. map_of r key = Some (PStr s)"
    unfolding r by (rule stringify_signal_id_string)
qed

lemma str_join_strings:
  "\<forall>v \<in> set vs. \<exists>s. v = PStr s \<Longrightarrow> \<exists>joined. str_join sep vs = Inr joined"
  by (induction sep vs rule: str_join.induct) auto

lemma main_after_stringify:
  assumes "stringify_signal_ids L ''signal_id'' kits0 = Inr kits1"
  shows "subscript_all ''signal_id'' kits1 = Inr (signal_ids kits1)"
    and "\<exists>joined. str_join '','' (signal_ids kits1) = Inr joined"
proof -
  note s = stringify_signal_ids_strings [OF assms]
  show "subscript_all ''signal_id'' kits1 = Inr (signal_ids kits1)"
    unfolding signal_ids_def using s by (intro subscript_all_ok) auto
  show "\<exists>joined. str_join '','' (signal_ids kits1) = Inr joined"
    using s by (intro str_join_strings) (auto simp: signal_ids_def dict_get_def)
qed

lemmas main_unfold =
  main_def get_kits_signal_status_def logger_info_def io_pure_def client_upsert_def
  get_socrata_data_pair status_params_def asset_params_def

lemma main_db_fails: "kits_db E = Inl e \<Longrightarrow> aborts (main L E) e"
  by (simp add: main_unfold aborts_def)

lemma main_stringify_fails:
  "kits_db E = Inr kits0 \<Longrightarrow> stringify_signal_ids L ''signal_id'' kits0 = Inl e \<Longrightarrow>
   aborts (main L E) e"
  by (simp add: main_unfold aborts_def)

lemma main_status_read_fails:
  "kits_db E = Inr kits0 \<Longrightarrow> stringify_signal_ids L ''signal_id'' kits0 = Inr kits1 \<Longrightarrow>
   socrata_result E SIGNAL_STATUS_RESOURCE_ID status_params = Inl e \<Longrightarrow>
   aborts (main L E) e"
  by (simp add: main_unfold aborts_def)


lemma main_identify_fails:
  assumes "kits_db E = Inr kits0" "stringify_signal_ids L ''signal_id'' kits0 = Inr kits1"
    "socrata_result E SIGNAL_STATUS_RESOURCE_ID status_params = Inr socrata"
    "identify_deletes kits1 socrata = Inl e"
  shows "aborts (main L E) e"
  using assms by (simp add: main_unfold aborts_def)

lemma main_assets_read_fails:
  assumes "kits_db E = Inr kits0" "stringify_signal_ids L ''signal_id'' kits0 = Inr kits1"
    "socrata_result E SIGNAL_STATUS_RESOURCE_ID status_params = Inr socrata"
    "identify_deletes kits1 socrata = Inr dels"
    "str_join '','' (signal_ids kits1) = Inr joined"
    "socrata_result E SIGNALS_RESOURCE_ID (asset_params joined) = Inl e"
  shows "aborts (main L E) e"
  using assms main_after_stringify(1) [OF assms(2)]
  by (simp add: main_unfold aborts_def)

lemma main_merge_fails:
  assumes "kits_db E = Inr kits0" "stringify_signal_ids L ''signal_id'' kits0 = Inr kits1"
    "socrata_result E SIGNAL_STATUS_RESOURCE_ID status_params = Inr socrata"
    "identify_deletes kits1 socrata = Inr dels"
    "str_join '','' (signal_ids kits1) = Inr joined"
    "socrata_result E SIGNALS_RESOURCE_ID (asset_params joined) = Inr assets"
    "merge_signal_asset_data kits1 assets = Inl e"
  shows "aborts (main L E) e"
  using assms main_after_stringify(1) [OF assms(2)]
  by (simp add: main_unfold aborts_def)

lemma main_localize_fails:
  assumes "kits_db E = Inr kits0" "stringify_signal_ids L ''signal_id'' kits0 = Inr kits1"
    "socrata_result E SIGNAL_STATUS_RESOURCE_ID status_params = Inr socrata"
    "identify_deletes kits1 socrata = Inr dels"
    "str_join '','' (signal_ids kits1) = Inr joined"
    "socrata_result E SIGNALS_RESOURCE_ID (asset_params joined) = Inr assets"
    "merge_signal_asset_data kits1 assets = Inr kits2"
    "localize_operation_state_datetime L ''operation_state_datetime'' ''US/Central'' kits2 = Inl e"
  shows "aborts (main L E) e"
  using assms main_after_stringify(1) [OF assms(2)]
  by (simp add: main_unfold aborts_def)

lemma main_convert_fails:
  assumes "kits_db E = Inr kits0" "stringify_signal_ids L ''signal_id'' kits0 = Inr kits1"
    "socrata_result E SIGNAL_STATUS_RESOURCE_ID status_params = Inr socrata"
    "identify_deletes kits1 socrata = Inr dels"
    "str_join '','' (signal_ids kits1) = Inr joined"
    "socrata_result E SIGNALS_RESOURCE_ID (asset_params joined) = Inr assets"
    "merge_signal_asset_data kits1 assets = Inr kits2"
    "localize_operation_state_datetime L ''operation_state_datetime'' ''US/Central'' kits2 = Inr kits3"
    "convert_decimals L decimal_keys (set_processed_datetime (clock E) ''US/Central'' 0 kits3) = Inl e"
  shows "aborts (main L E) e"
  using assms main_after_stringify(1) [OF assms(2)]
  by (simp add: main_unfold aborts_def)

lemma main_format_fails:
  assumes "kits_db E = Inr kits0" "stringify_signal_ids L ''signal_id'' kits0 = Inr kits1"
    "socrata_result E SIGNAL_STATUS_RESOURCE_ID status_params = Inr socrata"
    "identify_deletes kits1 socrata = Inr dels"
    "str_join '','' (signal_ids kits1) = Inr joined"
    "socrata_result E SIGNALS_RESOURCE_ID (asset_params joined) = Inr assets"
    "merge_signal_asset_data kits1 assets = Inr kits2"
    "localize_operation_state_datetime L ''operation_state_datetime'' ''US/Central'' kits2 = Inr kits3"
    "convert_decimals L decimal_keys (set_processed_datetime (clock E) ''US/Central'' 0 kits3) = Inr kits5"
    "format_locations L kits5 = Inl e"
  shows "aborts (main L E) e"
  using assms main_after_stringify(1) [OF assms(2)]
  by (simp add: main_unfold aborts_def)

lemma main_publishes:
  assumes "kits_db E = Inr kits0" "stringify_signal_ids L ''signal_id'' kits0 = Inr kits1"
    "socrata_result E SIGNAL_STATUS_RESOURCE_ID status_params = Inr socrata"
    "identify_deletes kits1 socrata = Inr dels"
    "str_join '','' (signal_ids kits1) = Inr joined"
    "socrata_result E SIGNALS_RESOURCE_ID (asset_params joined) = Inr assets"
    "merge_signal_asset_data kits1 assets = Inr kits2"
    "localize_operation_state_datetime L ''operation_state_datetime'' ''US/Central'' kits2 = Inr kits3"
    "convert_decimals L decimal_keys (set_processed_datetime (clock E) ''US/Central'' 0 kits3) = Inr kits5"
    "format_locations L kits5 = Inr kits6"
  shows "upserts (fst (main L E)) = [(SIGNAL_STATUS_RESOURCE_ID, kits6 @ dels)]"
    and "last (fst (main L E)) = Upsert SIGNAL_STATUS_RESOURCE_ID (kits6 @ dels)"
    and "snd (main L E) =
           (case socrata_upsert E SIGNAL_STATUS_RESOURCE_ID (kits6 @ dels) of
              None \<Rightarrow> Inr () | Some e \<Rightarrow> Inl e)"
  using assms main_after_stringify(1) [OF assms(2)]
  by (simp_all add: main_unfold)

lemma subscript_all_Inr:
  "subscript_all key xs = Inr vs \<Longrightarrow> vs = map (\<lambda>s. dict_get s key) xs"
  by (induction xs arbitrary: vs)
     (auto simp: dict_item_def dict_get_def split: option.splits sum.splits)

lemma identify_deletes_markers:
  assumes S: "\<forall>s \<in> set S. \<exists>i. map_of s ''signal_id'' = Some (PStr i)"
    and d: "identify_deletes S P = Inr dels"
  shows "dels = map delete_marker (filter (\<lambda>v. v \<notin> set (signal_ids S)) (signal_ids P))"
proof -
  from d obtain ks vs where ks: "subscript_all ''signal_id'' S = Inr ks"
    and vs: "subscript_all ''signal_id'' P = Inr vs" and dels: "dels = collect_deletes ks vs"
    by (auto simp: identify_deletes_def split: sum.splits)
  have ks': "ks = signal_ids S" and vs': "vs = signal_ids P"
    unfolding signal_ids_def using ks vs by (auto dest: subscript_all_Inr)
  have strs: "\<forall>k \<in> set (signal_ids S). \<exists>s. k = PStr s"
    using S by (auto simp: signal_ids_def dict_get_def)
  show ?thesis
    unfolding dels ks' vs' collect_deletes_filter using py_in_strings [OF strs] by simp
qed

lemma normalized_length:
  assumes "stringify_signal_ids L ''signal_id'' kits0 = Inr kits1"
    "merge_signal_asset_data kits1 assets = Inr kits2"
    "localize_operation_state_datetime L ''operation_state_datetime'' ''US/Central'' kits2 = Inr kits3"
    "convert_decimals L decimal_keys (set_processed_datetime clk ''US/Central'' 0 kits3) = Inr kits5"
    "format_locations L kits5 = Inr kits6"
  shows "length kits6 = length kits0"
proof -
  have "length kits1 = length kits0"
    using assms(1) unfolding stringify_signal_ids_def by (rule for_each_length)
  moreover have "length kits2 = length kits1"
    using assms(2) unfolding merge_signal_asset_data_def by (rule for_each_length)
  moreover have "length kits3 = length kits2"
    using assms(3) unfolding localize_operation_state_datetime_def by (rule for_each_length)
  moreover have "length (set_processed_datetime clk ''US/Central'' 0 kits3) = length kits3"
    using set_processed_datetime_frame [of kits3 clk "''US/Central''" 0] by (simp add: frame_def)
  moreover have "length kits5 = length (set_processed_datetime clk ''US/Central'' 0 kits3)"
    using assms(4) unfolding convert_decimals_def by (rule for_each_length)
  moreover have "length kits6 = length kits5"
    using assms(5) unfolding format_locations_def by (rule for_each_length)
  ultimately show ?thesis by simp
qed

text \<open>
  C2. When every step before the write returns normally, the run makes exactly one
  write call, its last call to the outside, on the status dataset. Its payload is the
  collection as the last pass left it, one record per row of the database, followed by
  the deletion markers, so its length is the number of rows plus the number of markers.
  The markers are those of the published ids that are not ids of the source.
\<close>

theorem batched_write_payload:
  assumes "kits_db E = Inr kits0"
    and "stringify_signal_ids L ''signal_id'' kits0 = Inr kits1"
    and "socrata_result E SIGNAL_STATUS_RESOURCE_ID status_params = Inr socrata"
    and "identify_deletes kits1 socrata = Inr dels"
    and "str_join '','' (signal_ids kits1) = Inr joined"
    and "socrata_result E SIGNALS_RESOURCE_ID (asset_params joined) = Inr assets"
    and "merge_signal_asset_data kits1 assets = Inr kits2"
    and "localize_operation_state_datetime L ''operation_state_datetime'' ''US/Central'' kits2
           = Inr kits3"
    and "convert_decimals L decimal_keys
           (set_processed_datetime (clock E) ''US/Central'' 0 kits3) = Inr kits5"
    and "format_locations L kits5 = Inr kits6"
  shows "upserts (fst (main L E)) = [(SIGNAL_STATUS_RESOURCE_ID, kits6 @ dels)]
     \<and> last (fst (main L E)) = Upsert SIGNAL_STATUS_RESOURCE_ID (kits6 @ dels)
     \<and> length kits6 = length kits0
     \<and> length (kits6 @ dels) = length kits0 + length dels
     \<and> dels = map delete_marker
                (filter (\<lambda>v. v \<notin> set (signal_ids kits1)) (signal_ids socrata))"
proof -
  have len: "length kits6 = length kits0"
    using assms(2,7,8,9,10) by (rule normalized_length)
  have dels: "dels = map delete_marker
                (filter (\<lambda>v. v \<notin> set (signal_ids kits1)) (signal_ids socrata))"
    using stringify_signal_ids_strings [OF assms(2)] assms(4) by (rule identify_deletes_markers)
  from main_publishes(1,2) [OF assms] len dels show ?thesis by simp
qed

theorem batched_write_payload_witness:
  "upserts (fst (main example_lib example_env)) = [(''5zpr-dehc'', ex_kits6 @ ex_deletes)]
   \<and> length (ex_kits6 @ ex_deletes) = 3
   \<and> ex_deletes = [[(''signal_id'', PStr ''103''), ('':deleted'', PBool True)]]
   \<and> signal_ids ex_kits6 = [PStr ''101'', PStr ''102'']"
proof -
  have h1: "kits_db example_env = Inr example_rows"
    by (simp add: example_env_def)
  have h2: "stringify_signal_ids example_lib ''signal_id'' example_rows = Inr ex_kits1"
    by code_simp
  have h3: "socrata_result example_env SIGNAL_STATUS_RESOURCE_ID status_params
              = Inr published_101_103"
    by code_simp
  have h4: "identify_deletes ex_kits1 published_101_103 = Inr ex_deletes"
    by code_simp
  have h5: "str_join '','' (signal_ids ex_kits1) = Inr ''101,102''"
    by code_simp
  have h6: "socrata_result example_env SIGNALS_RESOURCE_ID (asset_params ''101,102'')
              = Inr example_assets"
    by code_simp
  have h7: "merge_signal_asset_data ex_kits1 example_assets = Inr ex_kits2"
    by code_simp
  have h8: "localize_operation_state_datetime example_lib ''operation_state_datetime''
              ''US/Central'' ex_kits2 = Inr ex_kits3"
    by code_simp
  have h9: "convert_decimals example_lib decimal_keys
              (set_processed_datetime (clock example_env) ''US/Central'' 0 ex_kits3) = Inr ex_kits5"
    by code_simp
  have h10: "format_locations example_lib ex_kits5 = Inr ex_kits6"
    by code_simp
  have ids: "signal_ids ex_kits6 = [PStr ''101'', PStr ''102'']"
    by code_simp
  have len: "length (ex_kits6 @ ex_deletes) = 3"
    by code_simp
  have dl: "ex_deletes = [[(''signal_id'', PStr ''103''), ('':deleted'', PBool True)]]"
    by (simp add: ex_deletes_def)
  from batched_write_payload [OF h1 h2 h3 h4 h5 h6 h7 h8 h9 h10]
  have "upserts (fst (main example_lib example_env))
          = [(SIGNAL_STATUS_RESOURCE_ID, ex_kits6 @ ex_deletes)]"
    by (rule conjunct1)
  with ids len dl show ?thesis
    by (simp only: SIGNAL_STATUS_RESOURCE_ID_def simp_thms)
qed

lemma socrata_result_http_error:
  "http_get E (''https://data.austintexas.gov/resource/'' @ resource_id @ ''.json'') params
     = Inr res \<Longrightarrow>
   400 \<le> status_code res \<Longrightarrow> status_code res < 600 \<Longrightarrow>
   socrata_result E resource_id params = Inl (External ''HTTPError'')"
  by (simp add: socrata_result_def get_socrata_data_def Let_def)

lemma socrata_result_no_response:
  "http_get E (''https://data.austintexas.gov/resource/'' @ resource_id @ ''.json'') params
     = Inl e \<Longrightarrow>
   socrata_result E resource_id params = Inl e"
  by (simp add: socrata_result_def get_socrata_data_def Let_def)

text \<open>
  C8. Nothing in the run catches an exception. A read of the portal raises when the
  request fails or the answer has a status from 400 to 599. When the query of the
  database, one of the two reads, the computation of the deletes or one of the passes
  raises, the run ends with that exception and its calls to the outside contain no
  write call. Collecting and joining the ids for the second read cannot raise once the
  ids are strings.
\<close>

theorem failure_propagates:
  "(http_get E (''https://data.austintexas.gov/resource/'' @ resource_id @ ''.json'') params
      = Inl e \<longrightarrow> socrata_result E resource_id params = Inl e)
   \<and> (http_get E (''https://data.austintexas.gov/resource/'' @ resource_id @ ''.json'') params
        = Inr res \<and> 400 \<le> status_code res \<and> status_code res < 600 \<longrightarrow>
       socrata_result E resource_id params = Inl (External ''HTTPError''))
   \<and> (kits_db E = Inl e \<longrightarrow> aborts (main L E) e)
   \<and> (kits_db E = Inr kits0 \<longrightarrow>
    (stringify_signal_ids L ''signal_id'' kits0 = Inl e \<longrightarrow> aborts (main L E) e) \<and>
    (stringify_signal_ids L ''signal_id'' kits0 = Inr kits1 \<longrightarrow>
     subscript_all ''signal_id'' kits1 = Inr (signal_ids kits1) \<and>
     (\<exists>ids. str_join '','' (signal_ids kits1) = Inr ids) \<and>
     (socrata_result E SIGNAL_STATUS_RESOURCE_ID status_params = Inl e \<longrightarrow>
        aborts (main L E) e) \<and>
     (socrata_result E SIGNAL_STATUS_RESOURCE_ID status_params = Inr socrata \<longrightarrow>
      (identify_deletes kits1 socrata = Inl e \<longrightarrow> aborts (main L E) e) \<and>
      (identify_deletes kits1 socrata = Inr dels \<and>
       str_join '','' (signal_ids kits1) = Inr joined \<longrightarrow>
       (socrata_result E SIGNALS_RESOURCE_ID (asset_params joined) = Inl e \<longrightarrow>
          aborts (main L E) e) \<and>
       (socrata_result E SIGNALS_RESOURCE_ID (asset_params joined) = Inr assets \<longrightarrow>
        (merge_signal_asset_data kits1 assets = Inl e \<longrightarrow> aborts (main L E) e) \<and>
        (merge_signal_asset_data kits1 assets = Inr kits2 \<longrightarrow>
         (localize_operation_state_datetime L ''operation_state_datetime'' ''US/Central'' kits2
            = Inl e \<longrightarrow> aborts (main L E) e) \<and>
         (localize_operation_state_datetime L ''operation_state_datetime'' ''US/Central'' kits2
            = Inr kits3 \<longrightarrow>
          (convert_decimals L decimal_keys
             (set_processed_datetime (clock E) ''US/Central'' 0 kits3) = Inl e \<longrightarrow>
             aborts (main L E) e) \<and>
          (convert_decimals L decimal_keys
             (set_processed_datetime (clock E) ''US/Central'' 0 kits3) = Inr kits5 \<and>
           format_locations L kits5 = Inl e \<longrightarrow> aborts (main L E) e))))))))"
  using socrata_result_no_response [of E resource_id params e]
    socrata_result_http_error [of E resource_id params res]
    main_db_fails [of E e L] main_stringify_fails [of E kits0 L e]
    main_after_stringify [of L kits0 kits1]
    main_status_read_fails [of E kits0 L kits1 e]
    main_identify_fails [of E kits0 L kits1 socrata e]
    main_assets_read_fails [of E kits0 L kits1 socrata dels joined e]
    main_merge_fails [of E kits0 L kits1 socrata dels joined assets e]
    main_localize_fails [of E kits0 L kits1 socrata dels joined assets kits2 e]
    main_convert_fails [of E kits0 L kits1 socrata dels joined assets kits2 kits3 e]
    main_format_fails [of E kits0 L kits1 socrata dels joined assets kits2 kits3 kits5 e]
  by blast

theorem failure_propagates_witness:
  "aborts (main example_lib db_down_env) (External ''OperationalError'')
   \<and> socrata_result http_500_env SIGNAL_STATUS_RESOURCE_ID status_params
       = Inl (External ''HTTPError'')
   \<and> aborts (main example_lib http_500_env) (External ''HTTPError'')
   \<and> format_locations example_lib nl_kits5 = Inl AttributeError
   \<and> aborts (main example_lib no_location_env) AttributeError"
proof -
  have d: "kits_db db_down_env = Inl (External ''OperationalError'')"
    by (simp add: db_down_env_def)
  from failure_propagates [where E = db_down_env and L = example_lib
      and e = "External ''OperationalError''"] d
  have a: "aborts (main example_lib db_down_env) (External ''OperationalError'')"
    by blast
  have g: "http_get http_500_env
             (''https://data.austintexas.gov/resource/'' @ SIGNAL_STATUS_RESOURCE_ID @ ''.json'')
             status_params = Inr \<lparr>status_code = 500, json_body = Inr []\<rparr>"
    by (simp add: http_500_env_def)
  have k0: "kits_db http_500_env = Inr example_rows"
    by (simp add: http_500_env_def example_env_def)
  have k1: "stringify_signal_ids example_lib ''signal_id'' example_rows = Inr ex_kits1"
    by code_simp
  from failure_propagates [where E = http_500_env and resource_id = SIGNAL_STATUS_RESOURCE_ID
      and params = status_params and res = "\<lparr>status_code = 500, json_body = Inr []\<rparr>"] g
  have r: "socrata_result http_500_env SIGNAL_STATUS_RESOURCE_ID status_params
             = Inl (External ''HTTPError'')"
    by simp
  from failure_propagates [where E = http_500_env and L = example_lib
      and e = "External ''HTTPError''" and ?kits0.0 = example_rows and ?kits1.0 = ex_kits1] k0 k1 r
  have b: "aborts (main example_lib http_500_env) (External ''HTTPError'')"
    by blast
  have h1: "kits_db no_location_env = Inr example_rows"
    by (simp add: no_location_env_def example_env_def)
  have h3: "socrata_result no_location_env SIGNAL_STATUS_RESOURCE_ID status_params
              = Inr published_101_103"
    by code_simp
  have h4: "identify_deletes ex_kits1 published_101_103 = Inr ex_deletes"
    by code_simp
  have h5: "str_join '','' (signal_ids ex_kits1) = Inr ''101,102''"
    by code_simp
  have h6: "socrata_result no_location_env SIGNALS_RESOURCE_ID (asset_params ''101,102'')
              = Inr no_location_assets"
    by code_simp
  have h7: "merge_signal_asset_data ex_kits1 no_location_assets = Inr nl_kits2"
    by code_simp
  have h8: "localize_operation_state_datetime example_lib ''operation_state_datetime''
              ''US/Central'' nl_kits2 = Inr nl_kits3"
    by code_simp
  have h9: "convert_decimals example_lib decimal_keys
              (set_processed_datetime (clock no_location_env) ''US/Central'' 0 nl_kits3)
            = Inr nl_kits5"
    by code_simp
  have h10: "format_locations example_lib nl_kits5 = Inl AttributeError"
    by code_simp
  from failure_propagates [where E = no_location_env and L = example_lib and e = AttributeError
      and ?kits0.0 = example_rows and ?kits1.0 = ex_kits1 and socrata = published_101_103
      and dels = ex_deletes and joined = "''101,102''" and assets = no_location_assets
      and ?kits2.0 = nl_kits2 and ?kits3.0 = nl_kits3 and ?kits5.0 = nl_kits5]
    h1 k1 h3 h4 h5 h6 h7 h8 h9 h10
  have c: "aborts (main example_lib no_location_env) AttributeError"
    by blast
  from a r b h10 c show ?thesis by simp
qed

end
